theory Spec2Isabelle
  imports Complex_Main
begin

section \<open>Data model of the shooter (src/src/App.tsx, lines 5-69)\<close>

text \<open>
  The interfaces of the source become records, with the same field names; an interface
  that extends another becomes a record extension. JavaScript numbers that hold
  coordinates, sizes and velocities are modelled as \<^typ>\<open>real\<close> (rounding of
  IEEE doubles is not modelled); the counters that the program only ever changes by
  integer literals (health, shield, score, wave, cooldown ticks, damage, timestamps)
  are \<^typ>\<open>int\<close>. The field \<open>size\<close> of a particle is written \<open>size'\<close>.
\<close>

record Position =
  x :: real
  y :: real

record GameObject = Position +
  width :: real
  height :: real
  velocity :: Position

record Bullet = GameObject +
  color :: string

record AlienBullet = GameObject +
  color :: string
  damage :: int

datatype EnemyType = scout | heavy | boss

record Enemy = GameObject +
  health :: int
  color :: string
  type :: EnemyType
  animationFrame :: int
  lastShot :: int
  shootCooldown :: int

record Player = GameObject +
  health :: int
  maxHealth :: int
  shield :: int
  maxShield :: int
  shieldRegenCooldown :: int
  lastDamaged :: int
  animationFrame :: int

record Particle = Position +
  velocity :: Position
  life :: real
  maxLife :: real
  color :: string
  size' :: real

record GameState =
  player :: Player
  bullets :: "Bullet list"
  alienBullets :: "AlienBullet list"
  enemies :: "Enemy list"
  particles :: "Particle list"
  score :: int
  gameOver :: bool
  paused :: bool
  wave :: int

definition CANVAS_WIDTH :: real where "CANVAS_WIDTH = 900"
definition CANVAS_HEIGHT :: real where "CANVAS_HEIGHT = 700"
definition PLAYER_SPEED :: real where "PLAYER_SPEED = 6"
definition BULLET_SPEED :: real where "BULLET_SPEED = 8"
definition ENEMY_SPEED :: real where "ENEMY_SPEED = 1.5"
definition ALIEN_BULLET_SPEED :: real where "ALIEN_BULLET_SPEED = 4"

text \<open>The state of \<open>useState\<close> at line 78, which \<open>resetGame\<close> (line 103) sets again.\<close>

definition initialState :: GameState where
  "initialState =
     \<lparr> player = \<lparr> x = CANVAS_WIDTH / 2 - 20, y = CANVAS_HEIGHT - 120, width = 40, height = 60,
                  GameObject.velocity = \<lparr> x = 0, y = 0 \<rparr>,
                  Player.health = 100, maxHealth = 100, shield = 100, maxShield = 100,
                  shieldRegenCooldown = 0, lastDamaged = 0, Player.animationFrame = 0 \<rparr>,
       bullets = [], alienBullets = [], enemies = [], particles = [],
       score = 0, gameOver = False, paused = False, wave = 1 \<rparr>"

section \<open>The environment of one tick\<close>

text \<open>
  \<open>updateGame\<close> reads three things it does not own: the set of keys held
  (\<open>keysRef.current\<close>), \<open>Math.random()\<close> and \<open>Date.now()\<close>. One tick's
  environment gives the key set and, for every \<open>k\<close>, the result of the \<open>k\<close>-th call of
  \<open>Math.random()\<close> and of \<open>Date.now()\<close> made during that tick.
\<close>

record Input =
  keys :: "string set"
  random :: "nat \<Rightarrow> real"
  now :: "nat \<Rightarrow> int"

text \<open>
  What the updater of \<open>setGameState\<close> works on: the state under construction and the
  number of calls of \<open>Math.random()\<close> and \<open>Date.now()\<close> made so far in this tick.
\<close>

record Frame =
  newState :: GameState
  randomCalls :: nat
  nowCalls :: nat

text \<open>The component's state between ticks: the React state and the two refs.\<close>

record Machine =
  gameState :: GameState
  animationRef :: int
  lastShotRef :: int

section \<open>Entity factories and the collision test\<close>

text \<open>\<open>createParticle\<close> (line 130): five draws, in the order of the object literal.\<close>

definition createParticle :: "(nat \<Rightarrow> real) \<Rightarrow> nat \<Rightarrow> real \<Rightarrow> real \<Rightarrow> string \<Rightarrow> Particle" where
  "createParticle rnd k px py c =
     \<lparr> x = px, y = py,
       Particle.velocity = \<lparr> x = (rnd k - 0.5) * 6, y = (rnd (k + 1) - 0.5) * 6 \<rparr>,
       life = 30 + rnd (k + 2) * 20,
       maxLife = 30 + rnd (k + 3) * 20,
       Particle.color = c,
       size' = 2 + rnd (k + 4) * 3 \<rparr>"

text \<open>
  \<open>spawnEnemy\<close> (line 143). The first draw selects the index into \<open>types\<close>. A draw of
  \<open>Math.random()\<close> lies in \<open>[0,1)\<close>, so the index is in range; the model sends an
  index outside the array to the \<open>default\<close> branch of the \<open>switch\<close>, as JavaScript
  does with \<open>undefined\<close>.
\<close>

definition types :: "EnemyType list" where
  "types = [scout, scout, heavy, boss]"

definition typesAt :: "int \<Rightarrow> EnemyType option" where
  "typesAt idx = (if 0 \<le> idx \<and> idx < int (length types) then Some (types ! nat idx) else None)"

definition spawnEnemy :: "int \<Rightarrow> (nat \<Rightarrow> real) \<Rightarrow> nat \<Rightarrow> Enemy" where
  "spawnEnemy wv rnd k =
     (case typesAt \<lfloor>rnd k * (if wv > 3 then real (length types) else 2)\<rfloor> of
        Some heavy \<Rightarrow>
          \<lparr> x = rnd (k + 1) * (CANVAS_WIDTH - 60), y = - 60, width = 60, height = 50,
            GameObject.velocity = \<lparr> x = (rnd (k + 2) - 0.5) * 1, y = ENEMY_SPEED * 0.7 \<rparr>,
            Enemy.health = 3, Enemy.color = ''#dc2626'', type = heavy,
            Enemy.animationFrame = 0, lastShot = 0, shootCooldown = 0 \<rparr>
      | Some boss \<Rightarrow>
          \<lparr> x = rnd (k + 1) * (CANVAS_WIDTH - 80), y = - 80, width = 80, height = 70,
            GameObject.velocity = \<lparr> x = (rnd (k + 2) - 0.5) * 0.5, y = ENEMY_SPEED * 0.5 \<rparr>,
            Enemy.health = 5, Enemy.color = ''#7c2d12'', type = boss,
            Enemy.animationFrame = 0, lastShot = 0, shootCooldown = 0 \<rparr>
      | _ \<Rightarrow>
          \<lparr> x = rnd (k + 1) * (CANVAS_WIDTH - 40), y = - 40, width = 40, height = 35,
            GameObject.velocity = \<lparr> x = (rnd (k + 2) - 0.5) * 2, y = ENEMY_SPEED \<rparr>,
            Enemy.health = 1, Enemy.color = ''#16a34a'', type = scout,
            Enemy.animationFrame = 0, lastShot = 0, shootCooldown = 0 \<rparr>)"

text \<open>\<open>checkCollision\<close> (line 197), on any two records that extend \<open>GameObject\<close>.\<close>

definition checkCollision :: "'a GameObject_scheme \<Rightarrow> 'b GameObject_scheme \<Rightarrow> bool" where
  "checkCollision obj1 obj2 \<longleftrightarrow>
     x obj1 < x obj2 + width obj2 \<and>
     x obj1 + width obj1 > x obj2 \<and>
     y obj1 < y obj2 + height obj2 \<and>
     y obj1 + height obj1 > y obj2"

section \<open>The simulation step: \<open>updateGame\<close> (line 204)\<close>

text \<open>
  The loops \<open>for (let j = 0; j < n; j++) newState.particles.push(createParticle(...))\<close>
  of lines 276, 292, 298 and 344: each particle takes the next five draws.
\<close>

fun pushParticles :: "Input \<Rightarrow> nat \<Rightarrow> real \<Rightarrow> real \<Rightarrow> string \<Rightarrow> Frame \<Rightarrow> Frame" where
  "pushParticles inp 0 px py c f = f"
| "pushParticles inp (Suc n) px py c f =
     pushParticles inp n px py c
       (f\<lparr> newState := (newState f)\<lparr> particles :=
              particles (newState f) @ [createParticle (random inp) (randomCalls f) px py c] \<rparr>,
           randomCalls := randomCalls f + 5 \<rparr>)"

text \<open>Lines 212-225: the animation frame, the velocity from the keys, the clamped move.\<close>

definition updatePlayer :: "Input \<Rightarrow> int \<Rightarrow> Player \<Rightarrow> Player" where
  "updatePlayer inp anim p =
     (let p0 = p\<lparr> Player.animationFrame := anim \<rparr>;
          p1 = p0\<lparr> GameObject.velocity := (GameObject.velocity p0)\<lparr> x := 0 \<rparr> \<rparr>;
          p2 = (if ''ArrowLeft'' \<in> keys inp \<or> ''a'' \<in> keys inp
                then p1\<lparr> GameObject.velocity := (GameObject.velocity p1)\<lparr> x := - PLAYER_SPEED \<rparr> \<rparr>
                else p1);
          p3 = (if ''ArrowRight'' \<in> keys inp \<or> ''d'' \<in> keys inp
                then p2\<lparr> GameObject.velocity := (GameObject.velocity p2)\<lparr> x := PLAYER_SPEED \<rparr> \<rparr>
                else p2);
          p4 = p3\<lparr> x := x p3 + x (GameObject.velocity p3) \<rparr>
      in p4\<lparr> x := max 0 (min (CANVAS_WIDTH - width p4) (x p4)) \<rparr>)"

definition playerStep :: "Input \<Rightarrow> int \<Rightarrow> Frame \<Rightarrow> Frame" where
  "playerStep inp anim f =
     f\<lparr> newState := (newState f)\<lparr> player := updatePlayer inp anim (player (newState f)) \<rparr> \<rparr>"

text \<open>
  Lines 227-240: \<open>Date.now()\<close> is read once; a bullet is pushed when a fire key is held
  and more than 120 ms have passed since \<open>lastShotRef.current\<close>. The result is the new
  value of \<open>lastShotRef.current\<close> and the frame.
\<close>

definition shooting :: "Input \<Rightarrow> int \<Rightarrow> Frame \<Rightarrow> int \<times> Frame" where
  "shooting inp lastShotRef0 f =
     (let now0 = now inp (nowCalls f);
          f1 = f\<lparr> nowCalls := nowCalls f + 1 \<rparr>;
          st = newState f1
      in if ('' '' \<in> keys inp \<or> ''w'' \<in> keys inp \<or> ''ArrowUp'' \<in> keys inp)
            \<and> now0 - lastShotRef0 > 120
         then (now0,
               f1\<lparr> newState := st\<lparr> bullets := bullets st @
                 [\<lparr> x = x (player st) + width (player st) / 2 - 2, y = y (player st),
                    width = 4, height = 12,
                    GameObject.velocity = \<lparr> x = 0, y = - BULLET_SPEED \<rparr>,
                    Bullet.color = ''#fbbf24'' \<rparr>] \<rparr> \<rparr>)
         else (lastShotRef0, f1))"

text \<open>Lines 242-248.\<close>

definition updateBullets :: "Bullet list \<Rightarrow> Bullet list" where
  "updateBullets bs =
     filter (\<lambda>bullet. y bullet > - 15)
       (map (\<lambda>bullet. bullet\<lparr> y := y bullet + y (GameObject.velocity bullet) \<rparr>) bs)"

definition bulletStep :: "Frame \<Rightarrow> Frame" where
  "bulletStep f = f\<lparr> newState := (newState f)\<lparr> bullets := updateBullets (bullets (newState f)) \<rparr> \<rparr>"

text \<open>
  Lines 250-254: one draw against the spawn rate; \<open>spawnEnemy\<close> then takes three more.
  \<open>spawnEnemy\<close> reads the wave of the rendered state, which is the wave the tick
  started with.
\<close>

definition spawnEnemies :: "Input \<Rightarrow> Frame \<Rightarrow> Frame" where
  "spawnEnemies inp f =
     (let spawnRate = 0.015 + real_of_int (wave (newState f)) * 0.003;
          r = random inp (randomCalls f);
          f1 = f\<lparr> randomCalls := randomCalls f + 1 \<rparr>
      in if r < spawnRate
         then f1\<lparr> newState := (newState f1)\<lparr> enemies := enemies (newState f1) @
                    [spawnEnemy (wave (newState f1)) (random inp) (randomCalls f1)] \<rparr>,
                 randomCalls := randomCalls f1 + 3 \<rparr>
         else f1)"

text \<open>Lines 258-263: the \<open>map\<close> that moves every enemy.\<close>

definition moveEnemy :: "int \<Rightarrow> Enemy \<Rightarrow> Enemy" where
  "moveEnemy anim enemy =
     enemy\<lparr> x := x enemy + x (GameObject.velocity enemy),
            y := y enemy + y (GameObject.velocity enemy),
            Enemy.animationFrame := anim \<rparr>"

definition contactDamage :: "EnemyType \<Rightarrow> int" where
  "contactDamage t = (if t = boss then 40 else if t = heavy then 25 else 15)"

text \<open>
  Lines 264-282: the callback of the \<open>filter\<close> over the moved enemies. It returns
  whether the enemy is kept, the enemy (\<open>bounce\<close>, lines 267-270, may have flipped its
  horizontal velocity) and the frame (player health and particles may have changed).
\<close>

definition bounce :: "Enemy \<Rightarrow> Enemy" where
  "bounce enemy =
     (if x enemy \<le> 0 \<or> x enemy \<ge> CANVAS_WIDTH - width enemy
      then enemy\<lparr> GameObject.velocity :=
             (GameObject.velocity enemy)\<lparr> x := x (GameObject.velocity enemy) * - 1 \<rparr> \<rparr>
      else enemy)"

definition enemyFilter :: "Input \<Rightarrow> Enemy \<Rightarrow> Frame \<Rightarrow> bool \<times> Enemy \<times> Frame" where
  "enemyFilter inp enemy f =
     (if y enemy > CANVAS_HEIGHT then (False, enemy, f)
      else
        let enemy1 = bounce enemy;
            st = newState f
        in if checkCollision enemy1 (player st)
           then (False, enemy1,
                 pushParticles inp 10 (x enemy1 + width enemy1 / 2) (y enemy1 + height enemy1 / 2)
                   ''#ef4444''
                   (f\<lparr> newState := st\<lparr> player := (player st)\<lparr> Player.health :=
                          Player.health (player st) - contactDamage (type enemy1) \<rparr> \<rparr> \<rparr>))
           else (True, enemy1, f))"

fun filterEnemies :: "Input \<Rightarrow> Enemy list \<Rightarrow> Frame \<Rightarrow> Enemy list \<times> Frame" where
  "filterEnemies inp [] f = ([], f)"
| "filterEnemies inp (enemy # rest) f =
     (case enemyFilter inp enemy f of
        (keep, enemy1, f1) \<Rightarrow>
          (case filterEnemies inp rest f1 of
             (kept, f2) \<Rightarrow> (if keep then enemy1 # kept else kept, f2)))"

definition updateEnemies :: "Input \<Rightarrow> int \<Rightarrow> Frame \<Rightarrow> Frame" where
  "updateEnemies inp anim f =
     (case filterEnemies inp (map (moveEnemy anim) (enemies (newState f))) f of
        (kept, f1) \<Rightarrow> f1\<lparr> newState := (newState f1)\<lparr> enemies := kept \<rparr> \<rparr>)"

definition points :: "EnemyType \<Rightarrow> int" where
  "points t = (if t = boss then 50 else if t = heavy then 25 else 10)"

text \<open>
  Lines 286-308: the loop \<open>for (let i = newState.enemies.length - 1; i >= 0; i--)\<close>
  inside the callback of the bullet \<open>filter\<close>. The counter of the model is \<open>i + 1\<close>;
  the result says whether the bullet is kept.
\<close>

fun scanEnemies :: "Input \<Rightarrow> Bullet \<Rightarrow> nat \<Rightarrow> Frame \<Rightarrow> bool \<times> Frame" where
  "scanEnemies inp bullet 0 f = (True, f)"
| "scanEnemies inp bullet (Suc i) f =
     (let st = newState f in
      if checkCollision bullet (enemies st ! i) then
        let enemy = (enemies st ! i)\<lparr> Enemy.health := Enemy.health (enemies st ! i) - 1 \<rparr>;
            f1 = f\<lparr> newState := st\<lparr> enemies := (enemies st)[i := enemy] \<rparr> \<rparr>;
            f2 = pushParticles inp 5 (x bullet) (y bullet) ''#fbbf24'' f1
        in if Enemy.health enemy \<le> 0 then
             let f3 = pushParticles inp 15 (x enemy + width enemy / 2) (y enemy + height enemy / 2)
                        (Enemy.color enemy) f2;
                 st3 = newState f3
             in (False, f3\<lparr> newState := st3\<lparr> score := score st3 + points (type enemy),
                                               enemies := take i (enemies st3) @ drop (Suc i) (enemies st3) \<rparr> \<rparr>)
           else (False, f2)
      else scanEnemies inp bullet i f)"

definition bulletFilter :: "Input \<Rightarrow> Bullet \<Rightarrow> Frame \<Rightarrow> bool \<times> Frame" where
  "bulletFilter inp bullet f = scanEnemies inp bullet (length (enemies (newState f))) f"

fun filterBullets :: "Input \<Rightarrow> Bullet list \<Rightarrow> Frame \<Rightarrow> Bullet list \<times> Frame" where
  "filterBullets inp [] f = ([], f)"
| "filterBullets inp (bullet # rest) f =
     (case bulletFilter inp bullet f of
        (keep, f1) \<Rightarrow>
          (case filterBullets inp rest f1 of
             (kept, f2) \<Rightarrow> (if keep then bullet # kept else kept, f2)))"

text \<open>Lines 285-310: \<open>newState.bullets = newState.bullets.filter(...)\<close>.\<close>

definition bulletEnemyCollisions :: "Input \<Rightarrow> Frame \<Rightarrow> Frame" where
  "bulletEnemyCollisions inp f =
     (case filterBullets inp (bullets (newState f)) f of
        (kept, f1) \<Rightarrow> f1\<lparr> newState := (newState f1)\<lparr> bullets := kept \<rparr> \<rparr>)"

text \<open>
  Lines 324-341: what a hit by an alien bullet does to the player, \<open>currentTime\<close> being
  the result of \<open>Date.now()\<close>.
\<close>

definition alienBulletHit :: "int \<Rightarrow> AlienBullet \<Rightarrow> Player \<Rightarrow> Player" where
  "alienBulletHit currentTime alienBullet p =
     (let p1 = p\<lparr> lastDamaged := currentTime, shieldRegenCooldown := 180 \<rparr>;
          p2 = (if shield p1 > 0 then
                  let q = p1\<lparr> shield := shield p1 - damage alienBullet \<rparr>
                  in if shield q < 0
                     then q\<lparr> Player.health := Player.health q + shield q, shield := 0 \<rparr>
                     else q
                else p1\<lparr> Player.health := Player.health p1 - damage alienBullet \<rparr>)
      in if Player.health p2 < 0 then p2\<lparr> Player.health := 0 \<rparr> else p2)"

text \<open>Lines 318-350: the callback of the \<open>filter\<close> over the moved alien bullets.\<close>

definition alienBulletFilter :: "Input \<Rightarrow> AlienBullet \<Rightarrow> Frame \<Rightarrow> bool \<times> Frame" where
  "alienBulletFilter inp alienBullet f =
     (if y alienBullet > CANVAS_HEIGHT then (False, f)
      else if checkCollision alienBullet (player (newState f)) then
        let currentTime = now inp (nowCalls f);
            st = newState f;
            f1 = f\<lparr> newState := st\<lparr> player := alienBulletHit currentTime alienBullet (player st) \<rparr>,
                   nowCalls := nowCalls f + 1 \<rparr>
        in (False, pushParticles inp 8 (x alienBullet) (y alienBullet) ''#ef4444'' f1)
      else (True, f))"

fun filterAlienBullets :: "Input \<Rightarrow> AlienBullet list \<Rightarrow> Frame \<Rightarrow> AlienBullet list \<times> Frame" where
  "filterAlienBullets inp [] f = ([], f)"
| "filterAlienBullets inp (alienBullet # rest) f =
     (case alienBulletFilter inp alienBullet f of
        (keep, f1) \<Rightarrow>
          (case filterAlienBullets inp rest f1 of
             (kept, f2) \<Rightarrow> (if keep then alienBullet # kept else kept, f2)))"

definition moveAlienBullet :: "AlienBullet \<Rightarrow> AlienBullet" where
  "moveAlienBullet alienBullet =
     alienBullet\<lparr> y := y alienBullet + y (GameObject.velocity alienBullet) \<rparr>"

text \<open>Lines 312-350.\<close>

definition updateAlienBullets :: "Input \<Rightarrow> Frame \<Rightarrow> Frame" where
  "updateAlienBullets inp f =
     (case filterAlienBullets inp (map moveAlienBullet (alienBullets (newState f))) f of
        (kept, f1) \<Rightarrow> f1\<lparr> newState := (newState f1)\<lparr> alienBullets := kept \<rparr> \<rparr>)"

text \<open>
  Lines 353-386: the callback of \<open>forEach\<close> over the enemies. \<open>Date.now()\<close> is read for
  every enemy; \<open>Math.random()\<close> only when the cooldown has elapsed (\<open>&&\<close> does not
  evaluate its right side otherwise).
\<close>

definition enemyShoot :: "Input \<Rightarrow> Enemy \<Rightarrow> Frame \<Rightarrow> Enemy \<times> Frame" where
  "enemyShoot inp enemy f =
     (let currentTime = now inp (nowCalls f);
          f0 = f\<lparr> nowCalls := nowCalls f + 1 \<rparr>;
          shootChance = (case type enemy of scout \<Rightarrow> 0.003 | heavy \<Rightarrow> 0.008 | boss \<Rightarrow> (0.015 :: real));
          cooldown = (case type enemy of scout \<Rightarrow> 2000 | heavy \<Rightarrow> 1500 | boss \<Rightarrow> (800 :: int))
      in if currentTime - lastShot enemy > cooldown then
           let r = random inp (randomCalls f0);
               f1 = f0\<lparr> randomCalls := randomCalls f0 + 1 \<rparr>
           in if r < shootChance then
                let alienBullet =
                      \<lparr> x = x enemy + width enemy / 2 - 2, y = y enemy + height enemy,
                        width = 4, height = 8,
                        GameObject.velocity = \<lparr> x = 0, y = ALIEN_BULLET_SPEED \<rparr>,
                        AlienBullet.color =
                          (if type enemy = boss then ''#dc2626''
                           else if type enemy = heavy then ''#f97316'' else ''#eab308''),
                        damage = (if type enemy = boss then 25 else if type enemy = heavy then 15 else 8) \<rparr>
                in (enemy\<lparr> lastShot := currentTime \<rparr>,
                    f1\<lparr> newState := (newState f1)\<lparr> alienBullets :=
                          alienBullets (newState f1) @ [alienBullet] \<rparr> \<rparr>)
              else (enemy, f1)
         else (enemy, f0))"

fun enemiesShoot :: "Input \<Rightarrow> Enemy list \<Rightarrow> Frame \<Rightarrow> Enemy list \<times> Frame" where
  "enemiesShoot inp [] f = ([], f)"
| "enemiesShoot inp (enemy # rest) f =
     (case enemyShoot inp enemy f of
        (enemy1, f1) \<Rightarrow>
          (case enemiesShoot inp rest f1 of
             (rest1, f2) \<Rightarrow> (enemy1 # rest1, f2)))"

definition enemyShooting :: "Input \<Rightarrow> Frame \<Rightarrow> Frame" where
  "enemyShooting inp f =
     (case enemiesShoot inp (enemies (newState f)) f of
        (es, f1) \<Rightarrow> f1\<lparr> newState := (newState f1)\<lparr> enemies := es \<rparr> \<rparr>)"

text \<open>Lines 388-398.\<close>

definition shieldRegen :: "Player \<Rightarrow> Player" where
  "shieldRegen p =
     (let p1 = (if shieldRegenCooldown p > 0
                then p\<lparr> shieldRegenCooldown := shieldRegenCooldown p - 1 \<rparr> else p)
      in if shield p1 < maxShield p1 \<and> shieldRegenCooldown p1 = 0 then
           let p2 = p1\<lparr> shield := shield p1 + 1 \<rparr>;
               p3 = (if shield p2 > maxShield p2 then p2\<lparr> shield := maxShield p2 \<rparr> else p2)
           in p3\<lparr> shieldRegenCooldown := 30 \<rparr>
         else p1)"

definition shieldStep :: "Frame \<Rightarrow> Frame" where
  "shieldStep f = f\<lparr> newState := (newState f)\<lparr> player := shieldRegen (player (newState f)) \<rparr> \<rparr>"

text \<open>Lines 400-412.\<close>

definition updateParticles :: "Particle list \<Rightarrow> Particle list" where
  "updateParticles ps =
     filter (\<lambda>particle. life particle > 0)
       (map (\<lambda>particle. particle\<lparr>
               x := x particle + x (Particle.velocity particle),
               y := y particle + y (Particle.velocity particle),
               life := life particle - 1,
               Particle.velocity := \<lparr> x = x (Particle.velocity particle) * 0.95,
                                      y = y (Particle.velocity particle) * 0.95 \<rparr> \<rparr>) ps)"

definition particleStep :: "Frame \<Rightarrow> Frame" where
  "particleStep f =
     f\<lparr> newState := (newState f)\<lparr> particles := updateParticles (particles (newState f)) \<rparr> \<rparr>"

text \<open>Lines 414-417; \<open>prevScore\<close> is \<open>prevState.score\<close>.\<close>

definition waveProgression :: "int \<Rightarrow> GameState \<Rightarrow> GameState" where
  "waveProgression prevScore st =
     (if score st > 0 \<and> score st mod 250 = 0 \<and> score st \<noteq> prevScore
      then st\<lparr> wave := wave st + 1 \<rparr> else st)"

text \<open>Lines 419-422.\<close>

definition checkGameOver :: "GameState \<Rightarrow> GameState" where
  "checkGameOver st = (if Player.health (player st) \<le> 0 then st\<lparr> gameOver := True \<rparr> else st)"

text \<open>
  The updater passed to \<open>setGameState\<close> (lines 209-425), phase by phase in the order of
  the source. \<open>anim\<close> is \<open>animationRef.current\<close> after its increment.
\<close>

definition updater :: "Input \<Rightarrow> int \<Rightarrow> int \<Rightarrow> GameState \<Rightarrow> int \<times> GameState" where
  "updater inp anim lastShotRef0 prevState =
     (let f0 = \<lparr> newState = prevState, randomCalls = 0, nowCalls = 0 \<rparr>;
          f1 = playerStep inp anim f0;
          (lastShotRef1, f2) = shooting inp lastShotRef0 f1;
          f3 = bulletStep f2;
          f4 = spawnEnemies inp f3;
          f5 = updateEnemies inp anim f4;
          f6 = bulletEnemyCollisions inp f5;
          f7 = updateAlienBullets inp f6;
          f8 = enemyShooting inp f7;
          f9 = shieldStep f8;
          f10 = particleStep f9
      in (lastShotRef1, checkGameOver (waveProgression (score prevState) (newState f10))))"

text \<open>
  \<open>updateGame\<close> (line 204): nothing happens when the game is over or paused; otherwise
  \<open>animationRef.current\<close> is incremented and the updater runs.
\<close>

definition updateGame :: "Input \<Rightarrow> Machine \<Rightarrow> Machine" where
  "updateGame inp m =
     (if gameOver (gameState m) \<or> paused (gameState m) then m
      else
        let anim = animationRef m + 1;
            (lastShotRef1, st) = updater inp anim (lastShotRef m) (gameState m)
        in \<lparr> gameState = st, animationRef = anim, lastShotRef = lastShotRef1 \<rparr>)"

section \<open>Sessions: ticks, pause and reset\<close>

text \<open>
  Besides the game loop, two handlers set the state: the pause toggle (lines 747 and
  880) and \<open>resetGame\<close> (line 103). A session is a list of such events, applied in
  order from the state the component is mounted with.
\<close>

datatype Event = Tick Input | TogglePause | Reset

fun step :: "Event \<Rightarrow> Machine \<Rightarrow> Machine" where
  "step (Tick inp) m = updateGame inp m"
| "step TogglePause m = m\<lparr> gameState := (gameState m)\<lparr> paused := \<not> paused (gameState m) \<rparr> \<rparr>"
| "step Reset m = m\<lparr> gameState := initialState \<rparr>"

fun run :: "Event list \<Rightarrow> Machine \<Rightarrow> Machine" where
  "run [] m = m"
| "run (ev # evs) m = run evs (step ev m)"

definition initialMachine :: Machine where
  "initialMachine = \<lparr> gameState = initialState, animationRef = 0, lastShotRef = 0 \<rparr>"


section \<open>Notions used in the statements\<close>

text \<open>
  An enemy, after its move, touches the player in the contact phase when it is not
  below the canvas and its box overlaps the player's.
\<close>

definition contacts :: "Player \<Rightarrow> Enemy \<Rightarrow> bool" where
  "contacts p enemy \<longleftrightarrow> \<not> y enemy > CANVAS_HEIGHT \<and> checkCollision enemy p"


text \<open>
  The alien bullets that hit in one tick, applied to the player in the order of the list:
  every hit reads \<open>Date.now()\<close> once, so the \<open>j\<close>-th hit is \<open>alienBulletHit\<close> with the
  reading number \<open>k + j\<close> of the tick, \<open>k\<close> readings having been made before.
\<close>

fun applyHits :: "(nat \<Rightarrow> int) \<Rightarrow> nat \<Rightarrow> AlienBullet list \<Rightarrow> Player \<Rightarrow> Player" where
  "applyHits clock k [] p = p"
| "applyHits clock k (b # bs) p = applyHits clock (Suc k) bs (alienBulletHit (clock k) b p)"

text \<open>
  The enemies that a tick from state \<open>st\<close> adds (lines 250-254): the first draw of the
  tick is the one against the spawn rate, and \<open>spawnEnemy\<close> takes the next three.
\<close>

definition spawned :: "Input \<Rightarrow> GameState \<Rightarrow> Enemy list" where
  "spawned inp st =
     (if random inp 0 < 0.015 + real_of_int (wave st) * 0.003
      then [spawnEnemy (wave st) (random inp) 1] else [])"

section \<open>Example inputs and states\<close>

text \<open>Concrete inputs on which the theorems below are instantiated.\<close>

definition constDraw :: "real \<Rightarrow> nat \<Rightarrow> real" where
  "constDraw r = (\<lambda>k. r)"

definition constClock :: "int \<Rightarrow> nat \<Rightarrow> int" where
  "constClock t = (\<lambda>k. t)"

text \<open>No key held; every draw is \<open>1/2\<close> (nothing spawns, nobody shoots).\<close>

definition quietInput :: Input where
  "quietInput = \<lparr> keys = {}, random = constDraw (1/2), now = constClock 1000 \<rparr>"

text \<open>The space bar held.\<close>

definition fireInput :: Input where
  "fireInput = \<lparr> keys = {'' ''}, random = constDraw (1/2), now = constClock 1000 \<rparr>"

definition pausedMachine :: Machine where
  "pausedMachine = initialMachine\<lparr> gameState := initialState\<lparr> paused := True \<rparr> \<rparr>"

definition gameOverMachine :: Machine where
  "gameOverMachine = initialMachine\<lparr> gameState := initialState\<lparr> gameOver := True \<rparr> \<rparr>"

text \<open>The initial player with a given health and shield.\<close>

definition examplePlayer :: "int \<Rightarrow> int \<Rightarrow> Player" where
  "examplePlayer h s = (player initialState)\<lparr> Player.health := h, shield := s \<rparr>"

definition exampleFrame :: "GameState \<Rightarrow> Frame" where
  "exampleFrame st = \<lparr> newState = st, randomCalls = 0, nowCalls = 0 \<rparr>"

text \<open>An alien bullet of a given damage inside the box of the initial player.\<close>

definition exampleAlienBullet :: "int \<Rightarrow> AlienBullet" where
  "exampleAlienBullet d =
     \<lparr> x = 448, y = 600, width = 4, height = 8,
       GameObject.velocity = \<lparr> x = 0, y = ALIEN_BULLET_SPEED \<rparr>,
       AlienBullet.color = ''#eab308'', damage = d \<rparr>"

text \<open>A point (a box of width and height 0) and a box that contains it.\<close>

definition examplePoint :: GameObject where
  "examplePoint = \<lparr> x = 5, y = 5, width = 0, height = 0, GameObject.velocity = \<lparr> x = 0, y = 0 \<rparr> \<rparr>"

definition exampleBox :: GameObject where
  "exampleBox = \<lparr> x = 0, y = 0, width = 10, height = 10, GameObject.velocity = \<lparr> x = 0, y = 0 \<rparr> \<rparr>"

text \<open>An enemy of a given type and health at a given place, moving straight down.\<close>

definition exampleEnemy :: "EnemyType \<Rightarrow> int \<Rightarrow> real \<Rightarrow> real \<Rightarrow> Enemy" where
  "exampleEnemy t h ex ey =
     \<lparr> x = ex, y = ey, width = 40, height = 35,
       GameObject.velocity = \<lparr> x = 0, y = ENEMY_SPEED \<rparr>,
       Enemy.health = h, Enemy.color = ''#16a34a'', type = t,
       Enemy.animationFrame = 0, lastShot = 0, shootCooldown = 0 \<rparr>"

text \<open>A player bullet at height 110, where the enemies of the examples below are.\<close>

definition exampleBullet :: "real \<Rightarrow> Bullet" where
  "exampleBullet bx =
     \<lparr> x = bx, y = 110, width = 4, height = 12,
       GameObject.velocity = \<lparr> x = 0, y = - BULLET_SPEED \<rparr>, Bullet.color = ''#fbbf24'' \<rparr>"

text \<open>A boss about to touch the initial player, and a scout far away.\<close>

definition contactState :: GameState where
  "contactState = initialState\<lparr> enemies := [exampleEnemy boss 5 430 560, exampleEnemy scout 1 100 100] \<rparr>"

text \<open>
  A fresh scout, heavy and boss, and nine bullets: one inside the scout, three inside
  the heavy, five inside the boss.
\<close>

definition killFrame :: Frame where
  "killFrame = exampleFrame (initialState\<lparr>
     enemies := [exampleEnemy scout 1 100 100, exampleEnemy heavy 3 300 100, exampleEnemy boss 5 500 100],
     bullets := [exampleBullet 110, exampleBullet 310, exampleBullet 310, exampleBullet 310,
                 exampleBullet 510, exampleBullet 510, exampleBullet 510, exampleBullet 510,
                 exampleBullet 510] \<rparr>)"

text \<open>
  Score 240, one enemy of a given type with one health point left, and a bullet that
  reaches it in the next tick.
\<close>

definition scoreMachine :: "EnemyType \<Rightarrow> Machine" where
  "scoreMachine t = initialMachine\<lparr> gameState := initialState\<lparr>
      score := 240,
      enemies := [exampleEnemy t 1 300 100],
      bullets := [(exampleBullet 310)\<lparr> y := 118 \<rparr>] \<rparr> \<rparr>"

text \<open>No key held; every draw is \<open>1/100\<close>, below the spawn rate.\<close>

definition spawnInput :: Input where
  "spawnInput = \<lparr> keys = {}, random = constDraw (1/100), now = constClock 1000 \<rparr>"



text \<open>The initial player with 10 health points left and a scout about to touch it.\<close>

definition contactMachine :: Machine where
  "contactMachine = initialMachine\<lparr> gameState := initialState\<lparr>
      player := examplePlayer 10 100,
      enemies := [exampleEnemy scout 1 430 560] \<rparr> \<rparr>"

text \<open>
  The initial state with a given health and shield of the player and one alien bullet of
  a given damage that hits the player in the next tick.
\<close>

definition shieldMachine :: "int \<Rightarrow> int \<Rightarrow> int \<Rightarrow> Machine" where
  "shieldMachine h s d = initialMachine\<lparr> gameState := initialState\<lparr>
      player := examplePlayer h s, alienBullets := [exampleAlienBullet d] \<rparr> \<rparr>"

text \<open>
  A scout with health 1 and a heavy with health 3, each with a bullet that reaches it in
  the next tick.
\<close>

definition woundMachine :: Machine where
  "woundMachine = initialMachine\<lparr> gameState := initialState\<lparr>
      enemies := [exampleEnemy scout 1 100 100, exampleEnemy heavy 3 300 100],
      bullets := [(exampleBullet 110)\<lparr> y := 118 \<rparr>, (exampleBullet 310)\<lparr> y := 118 \<rparr>] \<rparr> \<rparr>"

subsection \<open>A session in which scouts reach the player\<close>

text \<open>
  The draws of a tick that spawns a scout in the player's column: the first draw (against
  the spawn rate) is 0, the others are \<open>1/2\<close> (type index 1, \<open>x = 430\<close>, no horizontal
  velocity).
\<close>

definition centreDraw :: "nat \<Rightarrow> real" where
  "centreDraw k = (if k = 0 then 0 else 1/2)"

text \<open>No key held, the clock at 1000 ms (no scout's cooldown of 2000 ms has elapsed).\<close>

definition columnInput :: "bool \<Rightarrow> Input" where
  "columnInput spawn =
     \<lparr> keys = {}, random = (if spawn then centreDraw else constDraw (1/2)), now = constClock 1000 \<rparr>"

text \<open>A scout as \<open>spawnEnemy\<close> makes it with these draws, at height \<open>v\<close>.\<close>

definition columnScout :: "int \<Rightarrow> real \<Rightarrow> Enemy" where
  "columnScout anim v =
     \<lparr> x = 430, y = v, width = 40, height = 35,
       GameObject.velocity = \<lparr> x = 0, y = ENEMY_SPEED \<rparr>,
       Enemy.health = 1, Enemy.color = ''#16a34a'', type = scout,
       Enemy.animationFrame = anim, lastShot = 0, shootCooldown = 0 \<rparr>"

text \<open>
  Seven ticks that each spawn such a scout, then 390 quiet ticks: the scouts come down
  the player's column and touch the player one after the other.
\<close>

definition raid :: "Event list" where
  "raid = replicate 7 (Tick (columnInput True)) @ replicate 390 (Tick (columnInput False))"

text \<open>
  For the proof about this session: the heights of the scouts after the move of a tick,
  which heights touch the initial player's box, and the states in which the enemies are
  scouts of the column at the heights \<open>ys\<close> and the player has health \<open>h\<close>.
\<close>

definition advance :: "bool \<Rightarrow> real list \<Rightarrow> real list" where
  "advance spawn ys = map (\<lambda>v. v + 3/2) (ys @ (if spawn then [- 40] else []))"

definition touching :: "real \<Rightarrow> bool" where
  "touching v \<longleftrightarrow> v \<le> 700 \<and> 545 < v \<and> v < 640"

definition column :: "real list \<Rightarrow> int \<Rightarrow> Machine \<Rightarrow> bool" where
  "column ys h m \<longleftrightarrow>
     enemies (gameState m) = map (columnScout (animationRef m)) ys \<and>
     bullets (gameState m) = [] \<and> alienBullets (gameState m) = [] \<and>
     \<not> paused (gameState m) \<and> wave (gameState m) = 1 \<and>
     x (player (gameState m)) = 430 \<and> y (player (gameState m)) = 580 \<and>
     width (player (gameState m)) = 40 \<and> height (player (gameState m)) = 60 \<and>
     Player.health (player (gameState m)) = h \<and>
     gameOver (gameState m) = (h \<le> 0)"

section \<open>Properties\<close>

subsection \<open>Selecting a coordinate after a velocity update\<close>

text \<open>
  The field \<open>velocity\<close> has the type of the record it extends; these selections are
  proved here once, for every record that extends \<open>GameObject\<close>, and for particles.
\<close>

lemma position_of_velocity_update [simp]:
  "x (r\<lparr> GameObject.velocity := v \<rparr>) = x r"
  "y (r\<lparr> GameObject.velocity := v \<rparr>) = y r"
  for r :: "'a GameObject_scheme"
  by (cases r, simp)+

lemma velocity_of_position_update [simp]:
  "GameObject.velocity (r\<lparr> x := a \<rparr>) = GameObject.velocity r"
  "GameObject.velocity (r\<lparr> y := a \<rparr>) = GameObject.velocity r"
  for r :: "'a GameObject_scheme"
  by (cases r, simp)+

lemma particle_position_of_velocity_update [simp]:
  "x (r\<lparr> Particle.velocity := v \<rparr>) = x r"
  "y (r\<lparr> Particle.velocity := v \<rparr>) = y r"
  for r :: "'a Particle_scheme"
  by (cases r, simp)+

lemma particle_velocity_of_position_update [simp]:
  "Particle.velocity (r\<lparr> x := a \<rparr>) = Particle.velocity r"
  "Particle.velocity (r\<lparr> y := a \<rparr>) = Particle.velocity r"
  for r :: "'a Particle_scheme"
  by (cases r, simp)+

subsection \<open>Particles leave everything but the particle list and the draw counter alone\<close>

lemma pushParticles_keeps [simp]:
  "player (newState (pushParticles inp n px py c f)) = player (newState f)"
  "bullets (newState (pushParticles inp n px py c f)) = bullets (newState f)"
  "alienBullets (newState (pushParticles inp n px py c f)) = alienBullets (newState f)"
  "enemies (newState (pushParticles inp n px py c f)) = enemies (newState f)"
  "score (newState (pushParticles inp n px py c f)) = score (newState f)"
  "gameOver (newState (pushParticles inp n px py c f)) = gameOver (newState f)"
  "paused (newState (pushParticles inp n px py c f)) = paused (newState f)"
  "wave (newState (pushParticles inp n px py c f)) = wave (newState f)"
  "nowCalls (pushParticles inp n px py c f) = nowCalls f"
  by (induction n arbitrary: f) simp_all

text \<open>
  The loop written out: \<open>n\<close> particles are appended, the \<open>j\<close>-th from the draws
  \<open>5j, ..., 5j + 4\<close> after those already made.
\<close>

lemma pushParticles_eval:
  "pushParticles inp n px py c f =
     f\<lparr> newState := (newState f)\<lparr> particles := particles (newState f) @
            map (\<lambda>j. createParticle (random inp) (randomCalls f + 5 * j) px py c) [0..<n] \<rparr>,
        randomCalls := randomCalls f + 5 * n \<rparr>"
proof (induction n arbitrary: f)
  case 0
  show ?case by simp
next
  case (Suc n)
  have "map (\<lambda>j. createParticle (random inp) (randomCalls f + 5 * j) px py c) [0..<Suc n] =
        createParticle (random inp) (randomCalls f) px py c #
        map (\<lambda>j. createParticle (random inp) (randomCalls f + 5 + 5 * j) px py c) [0..<n]"
    by (simp add: upt_conv_Cons map_Suc_upt [symmetric] add.assoc del: upt_Suc)
  then show ?case
    by (simp add: Suc.IH del: upt_Suc)
qed

subsection \<open>The collision test reads the boxes only\<close>

lemma checkCollision_health [simp]:
  "checkCollision e (p\<lparr> Player.health := h \<rparr>) = checkCollision e p"
  by (simp add: checkCollision_def)

lemma checkCollision_bounce [simp]:
  "checkCollision (bounce e) p = checkCollision e p"
  by (simp add: checkCollision_def bounce_def)

lemma bounce_keeps [simp]:
  "type (bounce e) = type e" "Enemy.health (bounce e) = Enemy.health e"
  "x (bounce e) = x e" "y (bounce e) = y e"
  by (simp_all add: bounce_def)

lemma contacts_health [simp]: "contacts (p\<lparr> Player.health := h \<rparr>) e = contacts p e"
  by (simp add: contacts_def)

subsection \<open>What each phase leaves unchanged\<close>

lemma playerStep_keeps [simp]:
  "bullets (newState (playerStep inp anim f)) = bullets (newState f)"
  "alienBullets (newState (playerStep inp anim f)) = alienBullets (newState f)"
  "enemies (newState (playerStep inp anim f)) = enemies (newState f)"
  "particles (newState (playerStep inp anim f)) = particles (newState f)"
  "score (newState (playerStep inp anim f)) = score (newState f)"
  "gameOver (newState (playerStep inp anim f)) = gameOver (newState f)"
  "paused (newState (playerStep inp anim f)) = paused (newState f)"
  "wave (newState (playerStep inp anim f)) = wave (newState f)"
  "randomCalls (playerStep inp anim f) = randomCalls f"
  "nowCalls (playerStep inp anim f) = nowCalls f"
  "player (newState (playerStep inp anim f)) = updatePlayer inp anim (player (newState f))"
  by (simp_all add: playerStep_def)

lemma bulletStep_keeps [simp]:
  "player (newState (bulletStep f)) = player (newState f)"
  "alienBullets (newState (bulletStep f)) = alienBullets (newState f)"
  "enemies (newState (bulletStep f)) = enemies (newState f)"
  "particles (newState (bulletStep f)) = particles (newState f)"
  "score (newState (bulletStep f)) = score (newState f)"
  "gameOver (newState (bulletStep f)) = gameOver (newState f)"
  "paused (newState (bulletStep f)) = paused (newState f)"
  "wave (newState (bulletStep f)) = wave (newState f)"
  "randomCalls (bulletStep f) = randomCalls f"
  "nowCalls (bulletStep f) = nowCalls f"
  by (simp_all add: bulletStep_def)

lemma shieldStep_keeps [simp]:
  "bullets (newState (shieldStep f)) = bullets (newState f)"
  "alienBullets (newState (shieldStep f)) = alienBullets (newState f)"
  "enemies (newState (shieldStep f)) = enemies (newState f)"
  "particles (newState (shieldStep f)) = particles (newState f)"
  "score (newState (shieldStep f)) = score (newState f)"
  "gameOver (newState (shieldStep f)) = gameOver (newState f)"
  "paused (newState (shieldStep f)) = paused (newState f)"
  "wave (newState (shieldStep f)) = wave (newState f)"
  "player (newState (shieldStep f)) = shieldRegen (player (newState f))"
  by (simp_all add: shieldStep_def)

lemma particleStep_keeps [simp]:
  "player (newState (particleStep f)) = player (newState f)"
  "bullets (newState (particleStep f)) = bullets (newState f)"
  "alienBullets (newState (particleStep f)) = alienBullets (newState f)"
  "enemies (newState (particleStep f)) = enemies (newState f)"
  "score (newState (particleStep f)) = score (newState f)"
  "gameOver (newState (particleStep f)) = gameOver (newState f)"
  "paused (newState (particleStep f)) = paused (newState f)"
  "wave (newState (particleStep f)) = wave (newState f)"
  by (simp_all add: particleStep_def)

lemma shooting_keeps [simp]:
  "player (newState (snd (shooting inp ls f))) = player (newState f)"
  "alienBullets (newState (snd (shooting inp ls f))) = alienBullets (newState f)"
  "enemies (newState (snd (shooting inp ls f))) = enemies (newState f)"
  "particles (newState (snd (shooting inp ls f))) = particles (newState f)"
  "score (newState (snd (shooting inp ls f))) = score (newState f)"
  "gameOver (newState (snd (shooting inp ls f))) = gameOver (newState f)"
  "paused (newState (snd (shooting inp ls f))) = paused (newState f)"
  "wave (newState (snd (shooting inp ls f))) = wave (newState f)"
  "randomCalls (snd (shooting inp ls f)) = randomCalls f"
  by (simp_all add: shooting_def Let_def)

lemma spawnEnemies_keeps [simp]:
  "player (newState (spawnEnemies inp f)) = player (newState f)"
  "bullets (newState (spawnEnemies inp f)) = bullets (newState f)"
  "alienBullets (newState (spawnEnemies inp f)) = alienBullets (newState f)"
  "particles (newState (spawnEnemies inp f)) = particles (newState f)"
  "score (newState (spawnEnemies inp f)) = score (newState f)"
  "gameOver (newState (spawnEnemies inp f)) = gameOver (newState f)"
  "paused (newState (spawnEnemies inp f)) = paused (newState f)"
  "wave (newState (spawnEnemies inp f)) = wave (newState f)"
  "nowCalls (spawnEnemies inp f) = nowCalls f"
  by (simp_all add: spawnEnemies_def Let_def)

lemma enemyFilter_keeps [simp]:
  "bullets (newState (snd (snd (enemyFilter inp e f)))) = bullets (newState f)"
  "alienBullets (newState (snd (snd (enemyFilter inp e f)))) = alienBullets (newState f)"
  "enemies (newState (snd (snd (enemyFilter inp e f)))) = enemies (newState f)"
  "score (newState (snd (snd (enemyFilter inp e f)))) = score (newState f)"
  "gameOver (newState (snd (snd (enemyFilter inp e f)))) = gameOver (newState f)"
  "paused (newState (snd (snd (enemyFilter inp e f)))) = paused (newState f)"
  "wave (newState (snd (snd (enemyFilter inp e f)))) = wave (newState f)"
  "nowCalls (snd (snd (enemyFilter inp e f))) = nowCalls f"
  by (simp_all add: enemyFilter_def Let_def)

lemma enemyFilter_player:
  "player (newState (snd (snd (enemyFilter inp e f)))) =
     (player (newState f))\<lparr> Player.health := Player.health (player (newState f)) -
        (if contacts (player (newState f)) e then contactDamage (type e) else 0) \<rparr>"
  by (simp add: enemyFilter_def contacts_def Let_def)

lemma enemyFilter_fst:
  "fst (enemyFilter inp e f) = (\<not> y e > CANVAS_HEIGHT \<and> \<not> checkCollision e (player (newState f)))"
  "fst (snd (enemyFilter inp e f)) = (if y e > CANVAS_HEIGHT then e else bounce e)"
  by (simp_all add: enemyFilter_def Let_def)

lemma filterEnemies_keeps [simp]:
  "bullets (newState (snd (filterEnemies inp es f))) = bullets (newState f)"
  "alienBullets (newState (snd (filterEnemies inp es f))) = alienBullets (newState f)"
  "enemies (newState (snd (filterEnemies inp es f))) = enemies (newState f)"
  "score (newState (snd (filterEnemies inp es f))) = score (newState f)"
  "gameOver (newState (snd (filterEnemies inp es f))) = gameOver (newState f)"
  "paused (newState (snd (filterEnemies inp es f))) = paused (newState f)"
  "wave (newState (snd (filterEnemies inp es f))) = wave (newState f)"
  "nowCalls (snd (filterEnemies inp es f)) = nowCalls f"
  by (induction es arbitrary: f) (simp_all add: case_prod_beta)

lemma filterEnemies_player:
  "player (newState (snd (filterEnemies inp es f))) =
     (player (newState f))\<lparr> Player.health := Player.health (player (newState f)) -
        (\<Sum>e\<leftarrow>filter (contacts (player (newState f))) es. contactDamage (type e)) \<rparr>"
proof (induction es arbitrary: f)
  case Nil
  show ?case by simp
next
  case (Cons e es)
  show ?case
    by (simp add: case_prod_beta Cons.IH enemyFilter_player)
qed

lemma filterEnemies_kept:
  "fst (filterEnemies inp es f) =
     map bounce (filter (\<lambda>e. \<not> y e > CANVAS_HEIGHT \<and> \<not> checkCollision e (player (newState f))) es)"
proof (induction es arbitrary: f)
  case Nil
  show ?case by simp
next
  case (Cons e es)
  show ?case
    by (simp add: case_prod_beta Cons.IH enemyFilter_player enemyFilter_fst)
qed

lemma updateEnemies_keeps [simp]:
  "bullets (newState (updateEnemies inp anim f)) = bullets (newState f)"
  "alienBullets (newState (updateEnemies inp anim f)) = alienBullets (newState f)"
  "score (newState (updateEnemies inp anim f)) = score (newState f)"
  "gameOver (newState (updateEnemies inp anim f)) = gameOver (newState f)"
  "paused (newState (updateEnemies inp anim f)) = paused (newState f)"
  "wave (newState (updateEnemies inp anim f)) = wave (newState f)"
  "nowCalls (updateEnemies inp anim f) = nowCalls f"
  by (simp_all add: updateEnemies_def case_prod_beta)

lemma scanEnemies_keeps [simp]:
  "player (newState (snd (scanEnemies inp b n f))) = player (newState f)"
  "bullets (newState (snd (scanEnemies inp b n f))) = bullets (newState f)"
  "alienBullets (newState (snd (scanEnemies inp b n f))) = alienBullets (newState f)"
  "gameOver (newState (snd (scanEnemies inp b n f))) = gameOver (newState f)"
  "paused (newState (snd (scanEnemies inp b n f))) = paused (newState f)"
  "wave (newState (snd (scanEnemies inp b n f))) = wave (newState f)"
  "nowCalls (snd (scanEnemies inp b n f)) = nowCalls f"
  by (induction n) (simp_all add: Let_def)

lemma filterBullets_keeps [simp]:
  "player (newState (snd (filterBullets inp bs f))) = player (newState f)"
  "bullets (newState (snd (filterBullets inp bs f))) = bullets (newState f)"
  "alienBullets (newState (snd (filterBullets inp bs f))) = alienBullets (newState f)"
  "gameOver (newState (snd (filterBullets inp bs f))) = gameOver (newState f)"
  "paused (newState (snd (filterBullets inp bs f))) = paused (newState f)"
  "wave (newState (snd (filterBullets inp bs f))) = wave (newState f)"
  "nowCalls (snd (filterBullets inp bs f)) = nowCalls f"
  by (induction bs arbitrary: f) (simp_all add: case_prod_beta bulletFilter_def)

lemma bulletEnemyCollisions_keeps [simp]:
  "player (newState (bulletEnemyCollisions inp f)) = player (newState f)"
  "alienBullets (newState (bulletEnemyCollisions inp f)) = alienBullets (newState f)"
  "gameOver (newState (bulletEnemyCollisions inp f)) = gameOver (newState f)"
  "paused (newState (bulletEnemyCollisions inp f)) = paused (newState f)"
  "wave (newState (bulletEnemyCollisions inp f)) = wave (newState f)"
  "nowCalls (bulletEnemyCollisions inp f) = nowCalls f"
  by (simp_all add: bulletEnemyCollisions_def case_prod_beta)

lemma alienBulletFilter_keeps [simp]:
  "bullets (newState (snd (alienBulletFilter inp b f))) = bullets (newState f)"
  "alienBullets (newState (snd (alienBulletFilter inp b f))) = alienBullets (newState f)"
  "enemies (newState (snd (alienBulletFilter inp b f))) = enemies (newState f)"
  "score (newState (snd (alienBulletFilter inp b f))) = score (newState f)"
  "gameOver (newState (snd (alienBulletFilter inp b f))) = gameOver (newState f)"
  "paused (newState (snd (alienBulletFilter inp b f))) = paused (newState f)"
  "wave (newState (snd (alienBulletFilter inp b f))) = wave (newState f)"
  by (simp_all add: alienBulletFilter_def Let_def)

lemma filterAlienBullets_keeps [simp]:
  "bullets (newState (snd (filterAlienBullets inp bs f))) = bullets (newState f)"
  "alienBullets (newState (snd (filterAlienBullets inp bs f))) = alienBullets (newState f)"
  "enemies (newState (snd (filterAlienBullets inp bs f))) = enemies (newState f)"
  "score (newState (snd (filterAlienBullets inp bs f))) = score (newState f)"
  "gameOver (newState (snd (filterAlienBullets inp bs f))) = gameOver (newState f)"
  "paused (newState (snd (filterAlienBullets inp bs f))) = paused (newState f)"
  "wave (newState (snd (filterAlienBullets inp bs f))) = wave (newState f)"
  by (induction bs arbitrary: f) (simp_all add: case_prod_beta)

lemma updateAlienBullets_keeps [simp]:
  "bullets (newState (updateAlienBullets inp f)) = bullets (newState f)"
  "enemies (newState (updateAlienBullets inp f)) = enemies (newState f)"
  "score (newState (updateAlienBullets inp f)) = score (newState f)"
  "gameOver (newState (updateAlienBullets inp f)) = gameOver (newState f)"
  "paused (newState (updateAlienBullets inp f)) = paused (newState f)"
  "wave (newState (updateAlienBullets inp f)) = wave (newState f)"
  by (simp_all add: updateAlienBullets_def case_prod_beta)

lemma enemyShoot_keeps [simp]:
  "player (newState (snd (enemyShoot inp e f))) = player (newState f)"
  "bullets (newState (snd (enemyShoot inp e f))) = bullets (newState f)"
  "enemies (newState (snd (enemyShoot inp e f))) = enemies (newState f)"
  "particles (newState (snd (enemyShoot inp e f))) = particles (newState f)"
  "score (newState (snd (enemyShoot inp e f))) = score (newState f)"
  "gameOver (newState (snd (enemyShoot inp e f))) = gameOver (newState f)"
  "paused (newState (snd (enemyShoot inp e f))) = paused (newState f)"
  "wave (newState (snd (enemyShoot inp e f))) = wave (newState f)"
  by (simp_all add: enemyShoot_def Let_def)

lemma enemiesShoot_keeps [simp]:
  "player (newState (snd (enemiesShoot inp es f))) = player (newState f)"
  "bullets (newState (snd (enemiesShoot inp es f))) = bullets (newState f)"
  "enemies (newState (snd (enemiesShoot inp es f))) = enemies (newState f)"
  "particles (newState (snd (enemiesShoot inp es f))) = particles (newState f)"
  "score (newState (snd (enemiesShoot inp es f))) = score (newState f)"
  "gameOver (newState (snd (enemiesShoot inp es f))) = gameOver (newState f)"
  "paused (newState (snd (enemiesShoot inp es f))) = paused (newState f)"
  "wave (newState (snd (enemiesShoot inp es f))) = wave (newState f)"
  by (induction es arbitrary: f) (simp_all add: case_prod_beta)

lemma enemyShooting_keeps [simp]:
  "player (newState (enemyShooting inp f)) = player (newState f)"
  "bullets (newState (enemyShooting inp f)) = bullets (newState f)"
  "particles (newState (enemyShooting inp f)) = particles (newState f)"
  "score (newState (enemyShooting inp f)) = score (newState f)"
  "gameOver (newState (enemyShooting inp f)) = gameOver (newState f)"
  "paused (newState (enemyShooting inp f)) = paused (newState f)"
  "wave (newState (enemyShooting inp f)) = wave (newState f)"
  by (simp_all add: enemyShooting_def case_prod_beta)

lemma checkGameOver_keeps [simp]:
  "score (checkGameOver st) = score st" "wave (checkGameOver st) = wave st"
  "player (checkGameOver st) = player st" "enemies (checkGameOver st) = enemies st"
  "paused (checkGameOver st) = paused st" "alienBullets (checkGameOver st) = alienBullets st"
  "bullets (checkGameOver st) = bullets st"
  "gameOver (checkGameOver st) = (gameOver st \<or> Player.health (player st) \<le> 0)"
  by (simp_all add: checkGameOver_def)

lemma waveProgression_keeps [simp]:
  "score (waveProgression ps st) = score st"
  "player (waveProgression ps st) = player st" "enemies (waveProgression ps st) = enemies st"
  "paused (waveProgression ps st) = paused st" "gameOver (waveProgression ps st) = gameOver st"
  "alienBullets (waveProgression ps st) = alienBullets st"
  "bullets (waveProgression ps st) = bullets st"
  by (simp_all add: waveProgression_def)

subsection \<open>The collision test on boxes of size 0\<close>

text \<open>
  Claim C4, as amended. A box of width 0 never overlaps a box of width 0, a box of
  height 0 never overlaps a box of height 0, and so a box of width or height 0 never
  overlaps itself. Against any box, a box of width 0 overlaps exactly when its \<open>x\<close> lies
  strictly inside the other's horizontal extent and the vertical extents overlap (and
  likewise for height 0): a box of size 0 strictly inside another box does overlap it.
\<close>

theorem checkCollision_zero_size:
  "(width a = 0 \<and> width b = 0 \<longrightarrow> \<not> checkCollision a b) \<and>
   (height a = 0 \<and> height b = 0 \<longrightarrow> \<not> checkCollision a b) \<and>
   (width a = 0 \<or> height a = 0 \<longrightarrow> \<not> checkCollision a a) \<and>
   (width a = 0 \<longrightarrow>
      checkCollision a b =
        (x b < x a \<and> x a < x b + width b \<and> y a < y b + height b \<and> y b < y a + height a)) \<and>
   (height a = 0 \<longrightarrow>
      checkCollision a b =
        (y b < y a \<and> y a < y b + height b \<and> x a < x b + width b \<and> x b < x a + width a))"
  by (auto simp: checkCollision_def)

theorem checkCollision_zero_size_witness:
  "width examplePoint = 0 \<and> height examplePoint = 0 \<and>
   \<not> checkCollision examplePoint examplePoint \<and>
   checkCollision examplePoint exampleBox =
     (x exampleBox < x examplePoint \<and> x examplePoint < x exampleBox + width exampleBox \<and>
      y examplePoint < y exampleBox + height exampleBox \<and>
      y exampleBox < y examplePoint + height examplePoint)"
  using checkCollision_zero_size [of examplePoint examplePoint]
    checkCollision_zero_size [of examplePoint exampleBox]
  by (simp add: examplePoint_def)

text \<open>
  The claim as stated fails: the point \<open>(5, 5)\<close>, of width and height 0, overlaps the
  box from \<open>(0, 0)\<close> to \<open>(10, 10)\<close>.
\<close>

theorem checkCollision_zero_size_counterexample:
  "width examplePoint = 0 \<and> height examplePoint = 0 \<and> checkCollision examplePoint exampleBox"
  by (simp add: checkCollision_def examplePoint_def exampleBox_def)

subsection \<open>A paused or finished game\<close>

text \<open>
  Claim C8. When the game is over or paused, \<open>updateGame\<close> changes nothing: the state
  and both refs are what they were, whatever keys are held.
\<close>

theorem updateGame_noop:
  "gameOver (gameState m) \<or> paused (gameState m) \<Longrightarrow> updateGame inp m = m"
  by (simp add: updateGame_def)

theorem updateGame_noop_witness:
  "paused (gameState pausedMachine) \<and> updateGame fireInput pausedMachine = pausedMachine \<and>
   gameOver (gameState gameOverMachine) \<and> updateGame fireInput gameOverMachine = gameOverMachine"
proof -
  have p: "paused (gameState pausedMachine)"
    by (simp add: pausedMachine_def)
  have g: "gameOver (gameState gameOverMachine)"
    by (simp add: gameOverMachine_def)
  show ?thesis
    using updateGame_noop [of pausedMachine fireInput] updateGame_noop [of gameOverMachine fireInput] p g
    by simp
qed

subsection \<open>The type of a spawned enemy\<close>

lemma floor_two_slots:
  "0 \<le> (r::real) \<Longrightarrow> r < 1 \<Longrightarrow> \<lfloor>r * 2\<rfloor> = (if r < 1/2 then 0 else 1)"
  by (auto simp: floor_eq_iff)

lemma floor_four_slots:
  "0 \<le> (r::real) \<Longrightarrow> r < 1 \<Longrightarrow>
   \<lfloor>r * 4\<rfloor> = (if r < 1/4 then 0 else if r < 1/2 then 1 else if r < 3/4 then 2 else 3)"
  by (auto simp: floor_eq_iff)

text \<open>
  Claim C9. The first draw \<open>r\<close> of \<open>spawnEnemy\<close> lies in \<open>[0,1)\<close>. Up to wave 3 the enemy
  is a scout whatever \<open>r\<close> is. From wave 4 on the four slots of width \<open>1/4\<close> select scout,
  scout, heavy and boss in this order, so two of the four slots give a scout.
\<close>

theorem spawnEnemy_type:
  "0 \<le> rnd k \<Longrightarrow> rnd k < 1 \<Longrightarrow>
   (wv \<le> 3 \<longrightarrow> type (spawnEnemy wv rnd k) = scout) \<and>
   (3 < wv \<longrightarrow> type (spawnEnemy wv rnd k) =
      (if rnd k < 1/4 then scout else if rnd k < 2/4 then scout
       else if rnd k < 3/4 then heavy else boss))"
  by (simp add: spawnEnemy_def typesAt_def types_def floor_two_slots floor_four_slots)

theorem spawnEnemy_type_witness:
  "0 \<le> constDraw (9/10) 0 \<and> constDraw (9/10) 0 < 1 \<and>
   type (spawnEnemy 3 (constDraw (9/10)) 0) = scout \<and>
   type (spawnEnemy 4 (constDraw (9/10)) 0) = boss \<and>
   type (spawnEnemy 4 (constDraw (6/10)) 0) = heavy \<and>
   type (spawnEnemy 4 (constDraw (3/10)) 0) = scout \<and>
   type (spawnEnemy 4 (constDraw (1/10)) 0) = scout"
  using spawnEnemy_type [of "constDraw (9/10)" 0 3] spawnEnemy_type [of "constDraw (9/10)" 0 4]
    spawnEnemy_type [of "constDraw (6/10)" 0 4] spawnEnemy_type [of "constDraw (3/10)" 0 4]
    spawnEnemy_type [of "constDraw (1/10)" 0 4]
  by (simp add: constDraw_def)

subsection \<open>Contact between enemies and the player\<close>

text \<open>
  Claim C7. In the contact phase every moved enemy that is still on the canvas and
  overlaps the player's box takes its contact damage (scout 15, heavy 25, boss 40) from
  the player's health; the shield and the score stay as they were; the enemies that
  remain are the ones on the canvas that do not overlap the player, so every
  overlapping enemy is removed.
\<close>

theorem contact_damage:
  "(let p = player (newState f);
        moved = map (moveEnemy anim) (enemies (newState f));
        f' = updateEnemies inp anim f
    in Player.health (player (newState f')) =
         Player.health p - (\<Sum>e\<leftarrow>filter (contacts p) moved. contactDamage (type e)) \<and>
       shield (player (newState f')) = shield p \<and>
       score (newState f') = score (newState f) \<and>
       enemies (newState f') =
         map bounce (filter (\<lambda>e. \<not> y e > CANVAS_HEIGHT \<and> \<not> checkCollision e p) moved) \<and>
       (\<forall>e \<in> set (enemies (newState f')). \<not> checkCollision e p)) \<and>
   contactDamage scout = 15 \<and> contactDamage heavy = 25 \<and> contactDamage boss = 40"
  by (auto simp add: Let_def updateEnemies_def case_prod_beta filterEnemies_player filterEnemies_kept contactDamage_def)

theorem contact_damage_witness:
  "Player.health (player (newState (updateEnemies quietInput 1 (exampleFrame contactState)))) = 60 \<and>
   shield (player (newState (updateEnemies quietInput 1 (exampleFrame contactState)))) = 100 \<and>
   score (newState (updateEnemies quietInput 1 (exampleFrame contactState))) = 0 \<and>
   map type (enemies (newState (updateEnemies quietInput 1 (exampleFrame contactState)))) = [scout]"
  using contact_damage [of "exampleFrame contactState" 1 quietInput]
  by (simp add: Let_def exampleFrame_def contactState_def exampleEnemy_def initialState_def
      contacts_def checkCollision_def moveEnemy_def CANVAS_WIDTH_def CANVAS_HEIGHT_def ENEMY_SPEED_def
      contactDamage_def bounce_def)

subsection \<open>Player bullets against enemies\<close>



lemma scanEnemies_hit:
  assumes "checkCollision b (enemies (newState f) ! i)" "i < length (enemies (newState f))"
  shows "\<not> fst (scanEnemies inp b (Suc i) f)"
    and "Enemy.health (enemies (newState f) ! i) - 1 \<le> 0 \<Longrightarrow>
         enemies (newState (snd (scanEnemies inp b (Suc i) f))) =
           take i (enemies (newState f)) @ drop (Suc i) (enemies (newState f)) \<and>
         score (newState (snd (scanEnemies inp b (Suc i) f))) =
           score (newState f) + points (type (enemies (newState f) ! i))"
    and "0 < Enemy.health (enemies (newState f) ! i) - 1 \<Longrightarrow>
         enemies (newState (snd (scanEnemies inp b (Suc i) f))) =
           (enemies (newState f))[i := (enemies (newState f) ! i)\<lparr> Enemy.health :=
              Enemy.health (enemies (newState f) ! i) - 1 \<rparr>] \<and>
         score (newState (snd (scanEnemies inp b (Suc i) f))) = score (newState f)"
  using assms by (simp_all add: Let_def)

lemma kill_three:
  "score (newState (bulletEnemyCollisions inp killFrame)) = 85 \<and>
   enemies (newState (bulletEnemyCollisions inp killFrame)) = [] \<and>
   bullets (newState (bulletEnemyCollisions inp killFrame)) = []"
  by (simp add: bulletEnemyCollisions_def killFrame_def exampleFrame_def initialState_def
      bulletFilter_def Let_def checkCollision_def exampleEnemy_def exampleBullet_def
      points_def pushParticles_eval del: upt_Suc)



subsection \<open>Wave progression\<close>

lemma updater_wave:
  "wave (snd (updater inp anim ls st)) =
     wave st + (if 0 < score (snd (updater inp anim ls st)) \<and> score (snd (updater inp anim ls st)) mod 250 = 0
                   \<and> score (snd (updater inp anim ls st)) \<noteq> score st then 1 else 0)"
  by (simp add: updater_def Let_def case_prod_beta waveProgression_def)

lemma scoreMachine_step:
  "score (gameState (updateGame quietInput (scoreMachine t))) = 240 + points t"
  by (simp add: updateGame_def updater_def scoreMachine_def initialMachine_def initialState_def
      quietInput_def constDraw_def constClock_def Let_def
      playerStep_def bulletStep_def shieldStep_def particleStep_def updatePlayer_def shooting_def updateBullets_def spawnEnemies_def updateEnemies_def
      moveEnemy_def enemyFilter_def bounce_def bulletEnemyCollisions_def bulletFilter_def
      checkCollision_def exampleEnemy_def exampleBullet_def pushParticles_eval
      CANVAS_WIDTH_def CANVAS_HEIGHT_def PLAYER_SPEED_def BULLET_SPEED_def ENEMY_SPEED_def
      del: upt_Suc)

text \<open>
  Claim C5. In every call of \<open>updateGame\<close> the wave grows by 1 exactly when the score
  at the end of the tick is positive, a multiple of 250 and different from the score at
  the start; otherwise it stays (a tick of a paused or finished game changes neither).
  So a tick that takes the score from 240 to 265 leaves the wave alone, and one that
  takes it from 240 to 250 increments it.
\<close>

theorem wave_progression:
  "(let s = score (gameState m); s' = score (gameState (updateGame inp m));
        w = wave (gameState m); w' = wave (gameState (updateGame inp m))
    in w' = (if 0 < s' \<and> s' mod 250 = 0 \<and> s' \<noteq> s then w + 1 else w) \<and>
       (s = 240 \<and> s' = 265 \<longrightarrow> w' = w) \<and>
       (s = 240 \<and> s' = 250 \<longrightarrow> w' = w + 1))"
proof (cases "gameOver (gameState m) \<or> paused (gameState m)")
  case True
  then have "updateGame inp m = m"
    by (simp add: updateGame_def)
  then show ?thesis
    by (simp add: Let_def)
next
  case False
  then show ?thesis
    using updater_wave [of inp "animationRef m + 1" "lastShotRef m" "gameState m"]
    by (simp add: updateGame_def Let_def case_prod_beta)
qed

theorem wave_progression_witness:
  "score (gameState (scoreMachine heavy)) = 240 \<and>
   score (gameState (updateGame quietInput (scoreMachine heavy))) = 265 \<and>
   wave (gameState (updateGame quietInput (scoreMachine heavy))) = wave (gameState (scoreMachine heavy)) \<and>
   score (gameState (scoreMachine scout)) = 240 \<and>
   score (gameState (updateGame quietInput (scoreMachine scout))) = 250 \<and>
   wave (gameState (updateGame quietInput (scoreMachine scout))) = wave (gameState (scoreMachine scout)) + 1"
proof -
  have a: "score (gameState (scoreMachine t)) = 240" for t
    by (simp add: scoreMachine_def initialMachine_def initialState_def)
  show ?thesis
    using wave_progression [of "scoreMachine heavy" quietInput]
      wave_progression [of "scoreMachine scout" quietInput]
      scoreMachine_step [of heavy] scoreMachine_step [of scout] a
    by (simp add: Let_def points_def)
qed

subsection \<open>Enemies in the collection have health at least 1\<close>

lemma spawnEnemy_health: "Enemy.health (spawnEnemy wv rnd k) \<in> {1, 3, 5}"
  by (simp add: spawnEnemy_def split: option.split EnemyType.split)

lemma spawnEnemies_alive:
  "\<forall>e \<in> set (enemies (newState f)). 1 \<le> Enemy.health e \<Longrightarrow>
   \<forall>e \<in> set (enemies (newState (spawnEnemies inp f))). 1 \<le> Enemy.health e"
  using spawnEnemy_health [of "wave (newState f)" "random inp" "Suc (randomCalls f)"]
  by (auto simp add: spawnEnemies_def Let_def)

lemma updateEnemies_alive:
  "\<forall>e \<in> set (enemies (newState f)). 1 \<le> Enemy.health e \<Longrightarrow>
   \<forall>e \<in> set (enemies (newState (updateEnemies inp anim f))). 1 \<le> Enemy.health e"
  by (auto simp add: updateEnemies_def case_prod_beta filterEnemies_kept moveEnemy_def)

lemma scanEnemies_alive:
  "n \<le> length (enemies (newState f)) \<Longrightarrow>
   \<forall>e \<in> set (enemies (newState f)). 1 \<le> Enemy.health e \<Longrightarrow>
   \<forall>e \<in> set (enemies (newState (snd (scanEnemies inp b n f)))). 1 \<le> Enemy.health e"
proof (induction n)
  case 0
  then show ?case by simp
next
  case (Suc n)
  let ?es = "enemies (newState f)"
  show ?case
  proof (cases "checkCollision b (?es ! n)")
    case False
    with Suc show ?thesis by (simp add: Let_def)
  next
    case True
    from Suc.prems have n: "n < length ?es" by simp
    show ?thesis
    proof (cases "Enemy.health (?es ! n) - 1 \<le> 0")
      case True
      have "set (take n ?es @ drop (Suc n) ?es) \<subseteq> set ?es"
        using set_take_subset [of n ?es] set_drop_subset [of "Suc n" ?es] by auto
      with Suc.prems(2) True \<open>checkCollision b (?es ! n)\<close> show ?thesis
        by (auto simp add: Let_def)
    next
      case False
      let ?e' = "(?es ! n)\<lparr> Enemy.health := Enemy.health (?es ! n) - 1 \<rparr>"
      have "set (?es[n := ?e']) \<subseteq> insert ?e' (set ?es)"
        by (rule set_update_subset_insert)
      moreover have "1 \<le> Enemy.health ?e'"
        using False by simp
      ultimately have "\<forall>e \<in> set (?es[n := ?e']). 1 \<le> Enemy.health e"
        using Suc.prems(2) by blast
      with False \<open>checkCollision b (?es ! n)\<close> show ?thesis
        by (simp add: Let_def)
    qed
  qed
qed

lemma filterBullets_alive:
  "\<forall>e \<in> set (enemies (newState f)). 1 \<le> Enemy.health e \<Longrightarrow>
   \<forall>e \<in> set (enemies (newState (snd (filterBullets inp bs f)))). 1 \<le> Enemy.health e"
proof (induction bs arbitrary: f)
  case Nil
  then show ?case by simp
next
  case (Cons b bs)
  have "\<forall>e \<in> set (enemies (newState (snd (bulletFilter inp b f)))). 1 \<le> Enemy.health e"
    unfolding bulletFilter_def using Cons.prems by (intro scanEnemies_alive) simp_all
  from Cons.IH [OF this] show ?case
    by (simp add: case_prod_beta)
qed

lemma bulletEnemyCollisions_alive:
  "\<forall>e \<in> set (enemies (newState f)). 1 \<le> Enemy.health e \<Longrightarrow>
   \<forall>e \<in> set (enemies (newState (bulletEnemyCollisions inp f))). 1 \<le> Enemy.health e"
  using filterBullets_alive [of f inp "bullets (newState f)"]
  by (simp add: bulletEnemyCollisions_def case_prod_beta)

lemma enemiesShoot_health:
  "map Enemy.health (fst (enemiesShoot inp es f)) = map Enemy.health es"
  by (induction es arbitrary: f) (simp_all add: case_prod_beta enemyShoot_def Let_def)

lemma enemyShooting_alive:
  assumes "\<forall>e \<in> set (enemies (newState f)). 1 \<le> Enemy.health e"
  shows "\<forall>e \<in> set (enemies (newState (enemyShooting inp f))). 1 \<le> Enemy.health e"
proof -
  have "\<forall>h \<in> set (map Enemy.health (enemies (newState f))). 1 \<le> h"
    using assms by simp
  then have "\<forall>h \<in> set (map Enemy.health (fst (enemiesShoot inp (enemies (newState f)) f))). 1 \<le> h"
    by (simp only: enemiesShoot_health)
  then show ?thesis
    by (simp add: enemyShooting_def case_prod_beta)
qed

lemma updater_alive:
  assumes "\<forall>e \<in> set (enemies st). 1 \<le> Enemy.health e"
  shows "\<forall>e \<in> set (enemies (snd (updater inp anim ls st))). 1 \<le> Enemy.health e"
proof -
  define f3 where "f3 = bulletStep (snd (shooting inp ls
      (playerStep inp anim \<lparr> newState = st, randomCalls = 0, nowCalls = 0 \<rparr>)))"
  define f6 where "f6 = bulletEnemyCollisions inp (updateEnemies inp anim (spawnEnemies inp f3))"
  have "\<forall>e \<in> set (enemies (newState f3)). 1 \<le> Enemy.health e"
    using assms by (simp add: f3_def)
  then have "\<forall>e \<in> set (enemies (newState f6)). 1 \<le> Enemy.health e"
    unfolding f6_def
    by (intro bulletEnemyCollisions_alive updateEnemies_alive spawnEnemies_alive)
  then have "\<forall>e \<in> set (enemies (newState (updateAlienBullets inp f6))). 1 \<le> Enemy.health e"
    by simp
  then have "\<forall>e \<in> set (enemies (newState (enemyShooting inp (updateAlienBullets inp f6)))).
      1 \<le> Enemy.health e"
    by (rule enemyShooting_alive)
  moreover have "enemies (snd (updater inp anim ls st)) =
      enemies (newState (enemyShooting inp (updateAlienBullets inp f6)))"
    by (simp add: updater_def f3_def f6_def Let_def case_prod_beta)
  ultimately show ?thesis
    by simp
qed

lemma updateGame_alive:
  "\<forall>e \<in> set (enemies (gameState m)). 1 \<le> Enemy.health e \<Longrightarrow>
   \<forall>e \<in> set (enemies (gameState (updateGame inp m))). 1 \<le> Enemy.health e"
  using updater_alive [of "gameState m" inp "animationRef m + 1" "lastShotRef m"]
  by (simp add: updateGame_def Let_def case_prod_beta)

lemma step_alive:
  "\<forall>e \<in> set (enemies (gameState m)). 1 \<le> Enemy.health e \<Longrightarrow>
   \<forall>e \<in> set (enemies (gameState (step ev m))). 1 \<le> Enemy.health e"
  by (cases ev) (simp_all add: updateGame_alive initialState_def)

lemma run_alive:
  "\<forall>e \<in> set (enemies (gameState m)). 1 \<le> Enemy.health e \<Longrightarrow>
   \<forall>e \<in> set (enemies (gameState (run evs m))). 1 \<le> Enemy.health e"
proof (induction evs arbitrary: m)
  case Nil
  then show ?case by simp
next
  case (Cons ev evs)
  from Cons.IH [OF step_alive [OF Cons.prems, of ev]] show ?case by simp
qed

lemma spawn_step:
  "map type (enemies (gameState (updateGame spawnInput initialMachine))) = [scout]"
  by (simp add: updateGame_def updater_def initialMachine_def initialState_def
      spawnInput_def constDraw_def constClock_def Let_def
      playerStep_def bulletStep_def shieldStep_def particleStep_def updatePlayer_def shooting_def updateBullets_def spawnEnemies_def updateEnemies_def
      moveEnemy_def enemyFilter_def bounce_def bulletEnemyCollisions_def bulletFilter_def
      updateAlienBullets_def enemyShooting_def enemyShoot_def
      spawnEnemy_def typesAt_def types_def
      checkCollision_def pushParticles_eval
      CANVAS_WIDTH_def CANVAS_HEIGHT_def PLAYER_SPEED_def BULLET_SPEED_def ENEMY_SPEED_def
      del: upt_Suc)

subsection \<open>The tick as a composition of its phases\<close>

lemma updateGame_running:
  "\<not> gameOver (gameState m) \<Longrightarrow> \<not> paused (gameState m) \<Longrightarrow>
   gameState (updateGame inp m) = snd (updater inp (animationRef m + 1) (lastShotRef m) (gameState m))"
  by (simp add: updateGame_def Let_def case_prod_beta)

lemma updater_unfold:
  "snd (updater inp anim ls st) =
     checkGameOver (waveProgression (score st) (newState (particleStep (shieldStep (enemyShooting inp
       (updateAlienBullets inp (bulletEnemyCollisions inp (updateEnemies inp anim (spawnEnemies inp
         (bulletStep (snd (shooting inp ls (playerStep inp anim
            \<lparr> newState = st, randomCalls = 0, nowCalls = 0 \<rparr>)))))))))))))"
  by (simp add: updater_def Let_def case_prod_beta)

subsection \<open>Alien bullets and the regeneration lockout\<close>

lemma alienBulletHit_box [simp]:
  "x (alienBulletHit t b p) = x p" "y (alienBulletHit t b p) = y p"
  "width (alienBulletHit t b p) = width p" "height (alienBulletHit t b p) = height p"
  "maxShield (alienBulletHit t b p) = maxShield p" "maxHealth (alienBulletHit t b p) = maxHealth p"
  "shieldRegenCooldown (alienBulletHit t b p) = 180"
  by (simp_all add: alienBulletHit_def Let_def)

lemma alienBulletFilter_player:
  "player (newState (snd (alienBulletFilter inp b f))) =
     (if \<not> y b > CANVAS_HEIGHT \<and> checkCollision b (player (newState f))
      then alienBulletHit (now inp (nowCalls f)) b (player (newState f))
      else player (newState f))"
  by (simp add: alienBulletFilter_def Let_def)

lemma alienBulletFilter_fst:
  "fst (alienBulletFilter inp b f) =
     (\<not> y b > CANVAS_HEIGHT \<and> \<not> checkCollision b (player (newState f)))"
  by (simp add: alienBulletFilter_def Let_def)

lemma alienBulletFilter_collision [simp]:
  "checkCollision a (player (newState (snd (alienBulletFilter inp b f)))) =
   checkCollision a (player (newState f))"
  by (simp add: alienBulletFilter_player checkCollision_def)


lemma filterAlienBullets_maxShield [simp]:
  "maxShield (player (newState (snd (filterAlienBullets inp bs f)))) = maxShield (player (newState f))"
  by (induction bs arbitrary: f) (simp_all add: case_prod_beta alienBulletFilter_player)


lemma updatePlayer_keeps [simp]:
  "shield (updatePlayer inp anim p) = shield p"
  "maxShield (updatePlayer inp anim p) = maxShield p"
  "shieldRegenCooldown (updatePlayer inp anim p) = shieldRegenCooldown p"
  "Player.health (updatePlayer inp anim p) = Player.health p"
  "maxHealth (updatePlayer inp anim p) = maxHealth p"
  by (simp_all add: updatePlayer_def Let_def)

lemma updateEnemies_player:
  "player (newState (updateEnemies inp anim f)) =
     (player (newState f))\<lparr> Player.health := Player.health (player (newState f)) -
        (\<Sum>e\<leftarrow>filter (contacts (player (newState f)))
               (map (moveEnemy anim) (enemies (newState f))). contactDamage (type e)) \<rparr>"
  by (simp add: updateEnemies_def case_prod_beta filterEnemies_player)



lemma updateAlienBullets_maxShield [simp]:
  "maxShield (player (newState (updateAlienBullets inp f))) = maxShield (player (newState f))"
  by (simp add: updateAlienBullets_def case_prod_beta)

lemma shieldRegen_fields:
  "maxShield (shieldRegen p) = maxShield p"
  "Player.health (shieldRegen p) = Player.health p"
  "shield (shieldRegen p) =
     (if shield p < maxShield p \<and> (shieldRegenCooldown p = 0 \<or> shieldRegenCooldown p = 1)
      then shield p + 1 else shield p)"
  "shieldRegenCooldown (shieldRegen p) =
     (if shield p < maxShield p \<and> (shieldRegenCooldown p = 0 \<or> shieldRegenCooldown p = 1) then 30
      else if 0 < shieldRegenCooldown p then shieldRegenCooldown p - 1 else shieldRegenCooldown p)"
  by (auto simp add: shieldRegen_def Let_def)

text \<open>
  The frame in which the alien bullets of a tick are filtered: the alien bullets are
  those of the start of the tick, and the player is the moved player, up to its health.
\<close>

lemma before_alien_phase:
  fixes inp anim ls st
  defines "f6 \<equiv> bulletEnemyCollisions inp (updateEnemies inp anim (spawnEnemies inp
      (bulletStep (snd (shooting inp ls (playerStep inp anim
         \<lparr> newState = st, randomCalls = 0, nowCalls = 0 \<rparr>))))))"
  shows "alienBullets (newState f6) = alienBullets st"
    and "player (newState f6) =
         (updatePlayer inp anim (player st))\<lparr> Player.health := Player.health (player (newState f6)) \<rparr>"
    and "player (snd (updater inp anim ls st)) = shieldRegen (player (newState (updateAlienBullets inp f6)))"
    and "paused (snd (updater inp anim ls st)) = paused st"
  by (simp_all add: f6_def updater_unfold updateEnemies_player)







subsection \<open>A run of quiet ticks after one hit\<close>


lemma spawnEnemies_none:
  "\<not> random inp (randomCalls f) < 0.015 + real_of_int (wave (newState f)) * 0.003 \<Longrightarrow>
   enemies (newState (spawnEnemies inp f)) = enemies (newState f)"
  by (simp add: spawnEnemies_def Let_def)



lemma updateAlienBullets_no_bullets:
  "alienBullets (newState f) = [] \<Longrightarrow>
   alienBullets (newState (updateAlienBullets inp f)) = [] \<and>
   player (newState (updateAlienBullets inp f)) = player (newState f)"
  by (simp add: updateAlienBullets_def)












subsection \<open>Contact damage is not clamped\<close>

text \<open>
  In a tick without alien bullets and without a spawn, the health after the tick is the
  health before minus the contact damage: nothing raises it to 0.
\<close>

lemma tick_health_no_bullets:
  assumes "\<not> gameOver (gameState m)" "\<not> paused (gameState m)"
    "alienBullets (gameState m) = []"
    "\<not> random inp 0 < 0.015 + real_of_int (wave (gameState m)) * 0.003"
  shows "Player.health (player (gameState (updateGame inp m))) =
     Player.health (player (gameState m)) -
       (\<Sum>e\<leftarrow>filter (contacts (updatePlayer inp (animationRef m + 1) (player (gameState m))))
              (map (moveEnemy (animationRef m + 1)) (enemies (gameState m))). contactDamage (type e))"
proof -
  let ?st = "gameState m"
  let ?anim = "animationRef m + 1"
  define f3 where "f3 = bulletStep (snd (shooting inp (lastShotRef m) (playerStep inp ?anim
         \<lparr> newState = ?st, randomCalls = 0, nowCalls = 0 \<rparr>)))"
  define f6 where "f6 = bulletEnemyCollisions inp (updateEnemies inp ?anim (spawnEnemies inp f3))"
  have f3: "enemies (newState f3) = enemies ?st" "randomCalls f3 = 0" "wave (newState f3) = wave ?st"
    "player (newState f3) = updatePlayer inp ?anim (player ?st)"
    by (simp_all add: f3_def)
  have e4: "enemies (newState (spawnEnemies inp f3)) = enemies ?st"
    using assms(4) by (simp add: spawnEnemies_none f3)
  have p6: "player (newState f6) =
      (updatePlayer inp ?anim (player ?st))\<lparr> Player.health := Player.health (player ?st) -
        (\<Sum>e\<leftarrow>filter (contacts (updatePlayer inp ?anim (player ?st)))
              (map (moveEnemy ?anim) (enemies ?st)). contactDamage (type e)) \<rparr>"
    by (simp add: f6_def updateEnemies_player e4 f3)
  have "alienBullets (newState f6) = []"
    using before_alien_phase(1) [of inp ?anim "lastShotRef m" ?st] assms(3)
    by (simp add: f6_def f3_def)
  then have "player (newState (updateAlienBullets inp f6)) = player (newState f6)"
    by (simp add: updateAlienBullets_no_bullets)
  then have "player (gameState (updateGame inp m)) = shieldRegen (player (newState f6))"
    using before_alien_phase(3) [of inp ?anim "lastShotRef m" ?st]
    by (simp add: updateGame_running [OF assms(1,2)] f6_def f3_def)
  then show ?thesis
    by (simp add: shieldRegen_fields p6)
qed

text \<open>From health 10, the contact with one scout leaves health \<open>-5\<close>.\<close>

lemma contact_leaves_health_negative:
  "\<not> gameOver (gameState contactMachine) \<and> \<not> paused (gameState contactMachine) \<and>
   Player.health (player (gameState contactMachine)) = 10 \<and>
   maxHealth (player (gameState contactMachine)) = 100 \<and>
   Player.health (player (gameState (updateGame quietInput contactMachine))) = - 5"
proof -
  have m: "\<not> gameOver (gameState contactMachine)" "\<not> paused (gameState contactMachine)"
    "alienBullets (gameState contactMachine) = []"
    "Player.health (player (gameState contactMachine)) = 10"
    "maxHealth (player (gameState contactMachine)) = 100"
    by (simp_all add: contactMachine_def initialMachine_def initialState_def examplePlayer_def)
  have r: "\<not> random quietInput 0 < 0.015 + real_of_int (wave (gameState contactMachine)) * 0.003"
    by (simp add: contactMachine_def initialMachine_def initialState_def quietInput_def constDraw_def)
  have c: "filter (contacts (updatePlayer quietInput (animationRef contactMachine + 1)
                (player (gameState contactMachine))))
        (map (moveEnemy (animationRef contactMachine + 1)) (enemies (gameState contactMachine))) =
      [moveEnemy 1 (exampleEnemy scout 1 430 560)]"
    by (simp add: contactMachine_def initialMachine_def initialState_def examplePlayer_def
        exampleEnemy_def moveEnemy_def contacts_def checkCollision_def updatePlayer_def
        quietInput_def Let_def CANVAS_WIDTH_def CANVAS_HEIGHT_def ENEMY_SPEED_def PLAYER_SPEED_def)
  have t: "type (moveEnemy 1 (exampleEnemy scout 1 430 560)) = scout"
    by (simp add: moveEnemy_def exampleEnemy_def)
  show ?thesis
    using m tick_health_no_bullets [OF m(1-3) r]
    by (simp add: c t contactDamage_def)
qed

subsection \<open>Scouts coming down the player's column\<close>

lemma spawn_column:
  "wave (newState f) = 1 \<Longrightarrow> randomCalls f = 0 \<Longrightarrow>
   enemies (newState (spawnEnemies (columnInput spawn) f)) =
     enemies (newState f) @ (if spawn then [columnScout 0 (- 40)] else [])"
  by (simp add: spawnEnemies_def columnInput_def centreDraw_def constDraw_def Let_def
      spawnEnemy_def typesAt_def types_def columnScout_def CANVAS_WIDTH_def)

lemma move_columnScout:
  "moveEnemy anim (columnScout a v) = columnScout anim (v + 3/2)"
  by (simp add: moveEnemy_def columnScout_def ENEMY_SPEED_def)

lemma bounce_columnScout: "bounce (columnScout a v) = columnScout a v"
  by (simp add: bounce_def columnScout_def CANVAS_WIDTH_def)

lemma columnScout_fields [simp]:
  "y (columnScout a v) = v" "type (columnScout a v) = scout"
  by (simp_all add: columnScout_def)

lemma collide_columnScout:
  "x p = 430 \<Longrightarrow> y p = 580 \<Longrightarrow> width p = 40 \<Longrightarrow> height p = 60 \<Longrightarrow>
   checkCollision (columnScout a v) p \<longleftrightarrow> 545 < v \<and> v < 640"
  by (auto simp add: checkCollision_def columnScout_def)

lemma enemiesShoot_column:
  "now inp = constClock 1000 \<Longrightarrow>
   fst (enemiesShoot inp (map (columnScout a) zs) f) = map (columnScout a) zs \<and>
   alienBullets (newState (snd (enemiesShoot inp (map (columnScout a) zs) f))) = alienBullets (newState f)"
  by (induction zs arbitrary: f)
    (simp_all add: case_prod_beta enemyShoot_def Let_def columnScout_def constClock_def)

lemma updatePlayer_no_keys:
  "keys inp = {} \<Longrightarrow> x p = 430 \<Longrightarrow> width p = 40 \<Longrightarrow>
   x (updatePlayer inp anim p) = 430 \<and> y (updatePlayer inp anim p) = y p \<and>
   width (updatePlayer inp anim p) = 40 \<and> height (updatePlayer inp anim p) = height p"
  by (simp add: updatePlayer_def Let_def CANVAS_WIDTH_def)

lemma shooting_no_keys:
  "keys inp = {} \<Longrightarrow> bullets (newState (snd (shooting inp ls f))) = bullets (newState f)"
  by (simp add: shooting_def Let_def)

lemma shieldRegen_box [simp]:
  "x (shieldRegen p) = x p" "y (shieldRegen p) = y p"
  "width (shieldRegen p) = width p" "height (shieldRegen p) = height p"
  by (simp_all add: shieldRegen_def Let_def)

lemma filter_columnScout:
  "filter P (map (columnScout a) zs) = map (columnScout a) (filter (\<lambda>v. P (columnScout a v)) zs)"
  by (induction zs) simp_all

lemma column_tick:
  assumes c: "column ys h m" and h: "0 < h"
  shows "column (filter (\<lambda>v. \<not> touching v \<and> v \<le> 700) (advance spawn ys))
           (h - 15 * int (length (filter touching (advance spawn ys))))
           (updateGame (columnInput spawn) m)"
proof -
  let ?inp = "columnInput spawn"
  let ?st = "gameState m"
  let ?anim = "animationRef m + 1"
  let ?zs = "advance spawn ys"
  from c h have st: "enemies ?st = map (columnScout (animationRef m)) ys"
    "bullets ?st = []" "alienBullets ?st = []" "\<not> paused ?st" "wave ?st = 1"
    "x (player ?st) = 430" "y (player ?st) = 580" "width (player ?st) = 40" "height (player ?st) = 60"
    "Player.health (player ?st) = h" "\<not> gameOver ?st"
    by (simp_all add: column_def)
  have inp: "keys ?inp = {}" "now ?inp = constClock 1000"
    by (simp_all add: columnInput_def)
  define P where "P = updatePlayer ?inp ?anim (player ?st)"
  have P: "x P = 430" "y P = 580" "width P = 40" "height P = 60" "Player.health P = h"
    using updatePlayer_no_keys [OF inp(1) st(6) st(8), of ?anim] st by (simp_all add: P_def)
  define f3 where "f3 = bulletStep (snd (shooting ?inp (lastShotRef m) (playerStep ?inp ?anim
         \<lparr> newState = ?st, randomCalls = 0, nowCalls = 0 \<rparr>)))"
  define f4 where "f4 = spawnEnemies ?inp f3"
  define f5 where "f5 = updateEnemies ?inp ?anim f4"
  define f6 where "f6 = bulletEnemyCollisions ?inp f5"
  define f7 where "f7 = updateAlienBullets ?inp f6"
  define f8 where "f8 = enemyShooting ?inp f7"
  have res: "gameState (updateGame ?inp m) =
      checkGameOver (waveProgression (score ?st) (newState (particleStep (shieldStep f8))))"
    unfolding f8_def f7_def f6_def f5_def f4_def f3_def
    by (simp only: updateGame_running [OF st(11) st(4)] updater_unfold)
  have ref: "animationRef (updateGame ?inp m) = ?anim"
    using st(4,11) by (simp add: updateGame_def Let_def case_prod_beta)
  have f3: "enemies (newState f3) = map (columnScout (animationRef m)) ys"
    "bullets (newState f3) = []" "alienBullets (newState f3) = []" "score (newState f3) = score ?st"
    "wave (newState f3) = 1" "randomCalls f3 = 0" "\<not> paused (newState f3)"
    "player (newState f3) = P"
    using st by (simp_all add: f3_def bulletStep_def shooting_no_keys [OF inp(1)] updateBullets_def P_def)
  have e4: "map (moveEnemy ?anim) (enemies (newState f4)) = map (columnScout ?anim) ?zs"
    unfolding f4_def
    by (simp add: spawn_column [OF f3(5) f3(6)] f3(1) advance_def move_columnScout)
  have f4: "bullets (newState f4) = []" "alienBullets (newState f4) = []"
    "score (newState f4) = score ?st" "wave (newState f4) = 1" "\<not> paused (newState f4)"
    "player (newState f4) = P"
    using f3 by (simp_all add: f4_def)
  have on: "(\<not> y e > CANVAS_HEIGHT) = (y e \<le> 700)" for e :: Enemy
    by (auto simp add: CANVAS_HEIGHT_def)
  have pred: "(\<lambda>v. \<not> y (columnScout ?anim v) > CANVAS_HEIGHT \<and> \<not> checkCollision (columnScout ?anim v) P) =
      (\<lambda>v. \<not> touching v \<and> v \<le> 700)"
    by (auto simp add: fun_eq_iff collide_columnScout [OF P(1-4)] touching_def CANVAS_HEIGHT_def)
  have "enemies (newState f5) =
      map bounce (filter (\<lambda>e. \<not> y e > CANVAS_HEIGHT \<and> \<not> checkCollision e P)
        (map (columnScout ?anim) ?zs))"
    unfolding f5_def by (simp add: updateEnemies_def case_prod_beta filterEnemies_kept e4 f4(6))
  also have "\<dots> = map bounce (map (columnScout ?anim) (filter (\<lambda>v. \<not> touching v \<and> v \<le> 700) ?zs))"
    by (simp only: filter_columnScout pred)
  also have "\<dots> = map (columnScout ?anim) (filter (\<lambda>v. \<not> touching v \<and> v \<le> 700) ?zs)"
    by (simp add: bounce_columnScout)
  finally have e5: "enemies (newState f5) =
      map (columnScout ?anim) (filter (\<lambda>v. \<not> touching v \<and> v \<le> 700) ?zs)" .
  have "(\<Sum>e\<leftarrow>filter (contacts P) (map (columnScout ?anim) zs). contactDamage (type e)) =
      15 * int (length (filter touching zs))" for zs
    by (induction zs)
      (simp_all add: contacts_def collide_columnScout [OF P(1-4)] touching_def on contactDamage_def)
  then have p5: "player (newState f5) = P\<lparr> Player.health := h - 15 * int (length (filter touching ?zs)) \<rparr>"
    unfolding f5_def by (simp add: updateEnemies_player f4(6) e4 P(5))
  have f5: "bullets (newState f5) = []" "alienBullets (newState f5) = []"
    "score (newState f5) = score ?st" "wave (newState f5) = 1" "\<not> paused (newState f5)"
    using f4 by (simp_all add: f5_def)
  have f6: "enemies (newState f6) = enemies (newState f5)" "bullets (newState f6) = []"
    "alienBullets (newState f6) = []" "score (newState f6) = score ?st" "wave (newState f6) = 1"
    "\<not> paused (newState f6)" "player (newState f6) = player (newState f5)"
    using f5 by (simp_all add: f6_def bulletEnemyCollisions_def)
  have f7: "enemies (newState f7) = enemies (newState f5)" "bullets (newState f7) = []"
    "alienBullets (newState f7) = []" "score (newState f7) = score ?st" "wave (newState f7) = 1"
    "\<not> paused (newState f7)" "player (newState f7) = player (newState f5)"
    using f6 by (simp_all add: f7_def updateAlienBullets_def)
  have shoot: "fst (enemiesShoot ?inp (enemies (newState f7)) f7) = enemies (newState f7)"
    "alienBullets (newState (snd (enemiesShoot ?inp (enemies (newState f7)) f7))) = []"
    using enemiesShoot_column [OF inp(2), of ?anim _ f7] f7(3) by (simp_all add: f7(1) e5)
  have f8: "enemies (newState f8) = enemies (newState f5)" "bullets (newState f8) = []"
    "alienBullets (newState f8) = []" "score (newState f8) = score ?st" "wave (newState f8) = 1"
    "\<not> paused (newState f8)" "player (newState f8) = player (newState f5)"
    "\<not> gameOver (newState f8)"
    using f7 shoot st(11)
    by (simp_all add: f8_def enemyShooting_def case_prod_beta f7_def f6_def f5_def f4_def f3_def)
  show ?thesis
    unfolding column_def res ref
    using f8 e5 p5 P
    by (simp add: waveProgression_def shieldRegen_fields)
qed

lemma run_append: "run (evs @ evs') m = run evs' (run evs m)"
  by (induction evs arbitrary: m) simp_all

lemma column_step:
  "column ys h m \<Longrightarrow> 0 < h \<Longrightarrow>
   ys' = filter (\<lambda>v. \<not> touching v \<and> v \<le> 700) (advance spawn ys) \<Longrightarrow>
   h' = h - 15 * int (length (filter touching (advance spawn ys))) \<Longrightarrow>
   column ys' h' (step (Tick (columnInput spawn)) m)"
  using column_tick [of ys h m spawn] by simp

lemma column_quiet_run:
  "column ys h m \<Longrightarrow> 0 < h \<Longrightarrow> \<forall>v \<in> set ys. v + 3/2 * real k \<le> 545 \<Longrightarrow>
   column (map (\<lambda>v. v + 3/2 * real k) ys) h (run (replicate k (Tick (columnInput False))) m)"
proof (induction k arbitrary: ys m)
  case 0
  then show ?case by simp
next
  case (Suc k)
  have grow: "(3/2::real) * real (Suc k) = 3/2 + 3/2 * real k"
    by (simp add: distrib_left)
  have low: "\<forall>v \<in> set ys. v + 3/2 \<le> 545"
  proof
    fix v assume "v \<in> set ys"
    with Suc.prems(3) have "v + 3/2 * real (Suc k) \<le> 545" by blast
    then have "v + (3/2 + 3/2 * real k) \<le> 545" by (simp only: grow)
    moreover have "0 \<le> 3/2 * real k" by simp
    ultimately show "v + 3/2 \<le> 545" by linarith
  qed
  have stay: "filter (\<lambda>v. \<not> touching v \<and> v \<le> 700) (advance False ys) = map (\<lambda>v. v + 3/2) ys"
    using low by (auto simp add: advance_def touching_def filter_id_conv)
  have none: "filter touching (advance False ys) = []"
    using low by (auto simp add: advance_def touching_def filter_empty_conv)
  have c1: "column (map (\<lambda>v. v + 3/2) ys) h (step (Tick (columnInput False)) m)"
    by (rule column_step [OF Suc.prems(1,2)]) (simp_all add: stay none)
  have "\<forall>v \<in> set (map (\<lambda>v. v + 3/2) ys). v + 3/2 * real k \<le> 545"
  proof
    fix w assume "w \<in> set (map (\<lambda>v. v + 3/2) ys)"
    then obtain v where v: "v \<in> set ys" "w = v + 3/2" by auto
    with Suc.prems(3) have "v + 3/2 * real (Suc k) \<le> 545" by blast
    then have "v + (3/2 + 3/2 * real k) \<le> 545" by (simp only: grow)
    then show "w + 3/2 * real k \<le> 545" using v(2) by linarith
  qed
  from Suc.IH [OF c1 Suc.prems(2) this]
  have "column (map (\<lambda>v. v + 3/2 * real k) (map (\<lambda>v. v + 3/2) ys)) h
      (run (replicate k (Tick (columnInput False))) (step (Tick (columnInput False)) m))" .
  moreover have "map (\<lambda>v. v + 3/2 * real k) (map (\<lambda>v. v + 3/2) ys) =
      map (\<lambda>v. v + 3/2 * real (Suc k)) ys"
    by (simp add: algebra_simps)
  ultimately show ?case
    by (simp only: replicate_Suc run.simps)
qed

lemma raid_column: "column [] (- 5) (run raid initialMachine)"
proof -
  let ?s = "Tick (columnInput True)"
  let ?q = "Tick (columnInput False)"
  have c0: "column [] 100 initialMachine"
    by (simp add: column_def initialMachine_def initialState_def CANVAS_WIDTH_def CANVAS_HEIGHT_def)
  define a1 where "a1 = step ?s initialMachine"
  have c1: "column [- 77/2] 100 a1"
    unfolding a1_def by (rule column_step [OF c0]) (simp_all add: advance_def touching_def)
  define a2 where "a2 = step ?s a1"
  have c2: "column [- 37, - 77/2] 100 a2"
    unfolding a2_def by (rule column_step [OF c1]) (simp_all add: advance_def touching_def)
  define a3 where "a3 = step ?s a2"
  have c3: "column [- 71/2, - 37, - 77/2] 100 a3"
    unfolding a3_def by (rule column_step [OF c2]) (simp_all add: advance_def touching_def)
  define a4 where "a4 = step ?s a3"
  have c4: "column [- 34, - 71/2, - 37, - 77/2] 100 a4"
    unfolding a4_def by (rule column_step [OF c3]) (simp_all add: advance_def touching_def)
  define a5 where "a5 = step ?s a4"
  have c5: "column [- 65/2, - 34, - 71/2, - 37, - 77/2] 100 a5"
    unfolding a5_def by (rule column_step [OF c4]) (simp_all add: advance_def touching_def)
  define a6 where "a6 = step ?s a5"
  have c6: "column [- 31, - 65/2, - 34, - 71/2, - 37, - 77/2] 100 a6"
    unfolding a6_def by (rule column_step [OF c5]) (simp_all add: advance_def touching_def)
  define a7 where "a7 = step ?s a6"
  have c7: "column [- 59/2, - 31, - 65/2, - 34, - 71/2, - 37, - 77/2] 100 a7"
    unfolding a7_def by (rule column_step [OF c6]) (simp_all add: advance_def touching_def)
  have spawned: "run (replicate 7 ?s) initialMachine = a7"
    by (simp add: eval_nat_numeral a7_def a6_def a5_def a4_def a3_def a2_def a1_def)
  define b0 where "b0 = run (replicate 383 ?q) a7"
  have "column (map (\<lambda>v. v + 3/2 * real (383::nat)) [- 59/2, - 31, - 65/2, - 34, - 71/2, - 37, - 77/2]) 100 b0"
    unfolding b0_def by (rule column_quiet_run [OF c7]) simp_all
  then have d0: "column [545, 1087/2, 542, 1081/2, 539, 1075/2, 536] 100 b0"
    by simp
  define b1 where "b1 = step ?q b0"
  have d1: "column [545, 1087/2, 542, 1081/2, 539, 1075/2] 85 b1"
    unfolding b1_def by (rule column_step [OF d0]) (simp_all add: advance_def touching_def)
  define b2 where "b2 = step ?q b1"
  have d2: "column [545, 1087/2, 542, 1081/2, 539] 70 b2"
    unfolding b2_def by (rule column_step [OF d1]) (simp_all add: advance_def touching_def)
  define b3 where "b3 = step ?q b2"
  have d3: "column [545, 1087/2, 542, 1081/2] 55 b3"
    unfolding b3_def by (rule column_step [OF d2]) (simp_all add: advance_def touching_def)
  define b4 where "b4 = step ?q b3"
  have d4: "column [545, 1087/2, 542] 40 b4"
    unfolding b4_def by (rule column_step [OF d3]) (simp_all add: advance_def touching_def)
  define b5 where "b5 = step ?q b4"
  have d5: "column [545, 1087/2] 25 b5"
    unfolding b5_def by (rule column_step [OF d4]) (simp_all add: advance_def touching_def)
  define b6 where "b6 = step ?q b5"
  have d6: "column [545] 10 b6"
    unfolding b6_def by (rule column_step [OF d5]) (simp_all add: advance_def touching_def)
  define b7 where "b7 = step ?q b6"
  have d7: "column [] (- 5) b7"
    unfolding b7_def by (rule column_step [OF d6]) (simp_all add: advance_def touching_def)
  have landed: "run (replicate 7 ?q) b0 = b7"
    by (simp add: eval_nat_numeral b7_def b6_def b5_def b4_def b3_def b2_def b1_def)
  have "replicate 390 ?q = replicate 383 ?q @ replicate 7 ?q"
    by (simp add: replicate_add [symmetric])
  then have "run raid initialMachine = b7"
    by (simp add: raid_def run_append spawned b0_def [symmetric] landed)
  with d7 show ?thesis by simp
qed

text \<open>
  Claim C2 fails on the code. The session \<open>raid\<close>, run from the initial state, ends with
  the player's health at \<open>-5\<close>: the seventh scout touches a player with 10 health
  points left, and the contact phase subtracts 15 without the clamp at 0 that the
  alien-bullet phase applies.
\<close>

theorem raid_leaves_health_negative:
  "Player.health (player (gameState (run raid initialMachine))) = - 5"
  using raid_column by (simp add: column_def)

subsection \<open>Shield-first absorption of alien-bullet hits\<close>

lemma shooting_nowCalls [simp]: "nowCalls (snd (shooting inp ls f)) = Suc (nowCalls f)"
  by (simp add: shooting_def Let_def)

lemma spawnEnemies_enemies:
  "enemies (newState (spawnEnemies inp f)) = enemies (newState f) @
     (if random inp (randomCalls f) < 0.015 + real_of_int (wave (newState f)) * 0.003
      then [spawnEnemy (wave (newState f)) (random inp) (Suc (randomCalls f))] else [])"
  by (simp add: spawnEnemies_def Let_def)

lemma alienBulletFilter_nowCalls:
  "nowCalls (snd (alienBulletFilter inp b f)) =
     (if \<not> y b > CANVAS_HEIGHT \<and> checkCollision b (player (newState f))
      then Suc (nowCalls f) else nowCalls f)"
  by (simp add: alienBulletFilter_def Let_def)

lemma checkCollision_alienBulletHit [simp]:
  "checkCollision a (alienBulletHit t b p) = checkCollision a p"
  by (simp add: checkCollision_def)

lemma filterAlienBullets_player:
  "player (newState (snd (filterAlienBullets inp bs f))) =
     applyHits (now inp) (nowCalls f)
       (filter (\<lambda>b. \<not> y b > CANVAS_HEIGHT \<and> checkCollision b (player (newState f))) bs)
       (player (newState f))"
proof (induction bs arbitrary: f)
  case Nil
  show ?case by simp
next
  case (Cons b bs)
  show ?case
    by (simp add: case_prod_beta Cons.IH alienBulletFilter_player alienBulletFilter_nowCalls)
qed

lemma filterAlienBullets_kept:
  "fst (filterAlienBullets inp bs f) =
     filter (\<lambda>b. \<not> y b > CANVAS_HEIGHT \<and> \<not> checkCollision b (player (newState f))) bs"
proof (induction bs arbitrary: f)
  case Nil
  show ?case by simp
next
  case (Cons b bs)
  show ?case
    by (simp add: case_prod_beta Cons.IH alienBulletFilter_fst)
qed

lemma updateAlienBullets_player:
  "player (newState (updateAlienBullets inp f)) =
     applyHits (now inp) (nowCalls f)
       (filter (\<lambda>b. \<not> y b > CANVAS_HEIGHT \<and> checkCollision b (player (newState f)))
          (map moveAlienBullet (alienBullets (newState f))))
       (player (newState f))"
  by (simp add: updateAlienBullets_def case_prod_beta filterAlienBullets_player)

lemma updateAlienBullets_kept:
  "alienBullets (newState (updateAlienBullets inp f)) =
     filter (\<lambda>b. \<not> y b > CANVAS_HEIGHT \<and> \<not> checkCollision b (player (newState f)))
       (map moveAlienBullet (alienBullets (newState f)))"
  by (simp add: updateAlienBullets_def case_prod_beta filterAlienBullets_kept)

lemma enemiesShoot_appends:
  "\<exists>shots. alienBullets (newState (snd (enemiesShoot inp es f))) = alienBullets (newState f) @ shots"
proof (induction es arbitrary: f)
  case Nil
  show ?case by simp
next
  case (Cons e es)
  obtain s1 where s1: "alienBullets (newState (snd (enemyShoot inp e f))) = alienBullets (newState f) @ s1"
    by (cases "now inp (nowCalls f) - lastShot e >
          (case type e of scout \<Rightarrow> 2000 | heavy \<Rightarrow> 1500 | boss \<Rightarrow> (800 :: int))";
        cases "random inp (randomCalls f) <
          (case type e of scout \<Rightarrow> 0.003 | heavy \<Rightarrow> 0.008 | boss \<Rightarrow> (0.015 :: real))")
      (simp_all add: enemyShoot_def Let_def)
  from Cons.IH [of "snd (enemyShoot inp e f)"] obtain s2 where
    "alienBullets (newState (snd (enemiesShoot inp es (snd (enemyShoot inp e f))))) =
       alienBullets (newState (snd (enemyShoot inp e f))) @ s2" by blast
  with s1 show ?case
    by (simp add: case_prod_beta)
qed

lemma enemyShooting_appends:
  "\<exists>shots. alienBullets (newState (enemyShooting inp f)) = alienBullets (newState f) @ shots"
  using enemiesShoot_appends [of inp "enemies (newState f)" f]
  by (simp add: enemyShooting_def case_prod_beta)

lemma applyHits_lockout:
  "hits \<noteq> [] \<Longrightarrow> shieldRegenCooldown (applyHits clock k hits p) = 180"
proof (induction hits arbitrary: k p)
  case Nil
  then show ?case by simp
next
  case (Cons b hits)
  show ?case
  proof (cases "hits = []")
    case True
    then show ?thesis by simp
  next
    case False
    from Cons.IH [OF this] show ?thesis by simp
  qed
qed

lemma tick_player:
  assumes "\<not> gameOver (gameState m)" "\<not> paused (gameState m)"
  shows "player (gameState (updateGame inp m)) =
     shieldRegen (applyHits (now inp) 1
       (filter (\<lambda>b. \<not> y b > CANVAS_HEIGHT \<and>
                  checkCollision b (updatePlayer inp (animationRef m + 1) (player (gameState m))))
          (map moveAlienBullet (alienBullets (gameState m))))
       ((updatePlayer inp (animationRef m + 1) (player (gameState m)))\<lparr> Player.health :=
          Player.health (player (gameState m)) -
          (\<Sum>e\<leftarrow>filter (contacts (updatePlayer inp (animationRef m + 1) (player (gameState m))))
                 (map (moveEnemy (animationRef m + 1)) (enemies (gameState m) @ spawned inp (gameState m))).
             contactDamage (type e)) \<rparr>))"
  by (simp add: updateGame_running [OF assms] before_alien_phase(3) updateAlienBullets_player
      updateEnemies_player spawnEnemies_enemies spawned_def)

lemma tick_alienBullets:
  assumes "\<not> gameOver (gameState m)" "\<not> paused (gameState m)"
  shows "\<exists>shots. alienBullets (gameState (updateGame inp m)) =
     filter (\<lambda>b. \<not> y b > CANVAS_HEIGHT \<and>
                \<not> checkCollision b (updatePlayer inp (animationRef m + 1) (player (gameState m))))
       (map moveAlienBullet (alienBullets (gameState m))) @ shots"
proof -
  define f6 where "f6 = bulletEnemyCollisions inp (updateEnemies inp (animationRef m + 1) (spawnEnemies inp
      (bulletStep (snd (shooting inp (lastShotRef m) (playerStep inp (animationRef m + 1)
         \<lparr> newState = gameState m, randomCalls = 0, nowCalls = 0 \<rparr>))))))"
  have "alienBullets (gameState (updateGame inp m)) =
      alienBullets (newState (enemyShooting inp (updateAlienBullets inp f6)))"
    by (simp add: updateGame_running [OF assms] updater_unfold f6_def)
  moreover have "alienBullets (newState (updateAlienBullets inp f6)) =
     filter (\<lambda>b. \<not> y b > CANVAS_HEIGHT \<and>
                \<not> checkCollision b (updatePlayer inp (animationRef m + 1) (player (gameState m))))
       (map moveAlienBullet (alienBullets (gameState m)))"
    by (simp add: updateAlienBullets_kept f6_def updateEnemies_player)
  ultimately show ?thesis
    using enemyShooting_appends [of inp "updateAlienBullets inp f6"] by simp
qed


lemma alienBulletHit_rule:
  "(0 < shield r \<and> damage b \<le> shield r \<longrightarrow>
      shield (alienBulletHit t b r) = shield r - damage b \<and>
      Player.health (alienBulletHit t b r) = max 0 (Player.health r)) \<and>
   (0 < shield r \<and> shield r < damage b \<longrightarrow>
      shield (alienBulletHit t b r) = 0 \<and>
      Player.health (alienBulletHit t b r) = max 0 (Player.health r - (damage b - shield r))) \<and>
   (shield r \<le> 0 \<longrightarrow>
      shield (alienBulletHit t b r) = shield r \<and>
      Player.health (alienBulletHit t b r) = max 0 (Player.health r - damage b))"
  by (simp add: alienBulletHit_def Let_def)

text \<open>
  Claim C1. In a tick of a running game the alien bullets that hit are those that, after
  their move, are on the canvas and overlap the player as moved by this tick's keys. They
  are removed, and they are applied in the order of the list to the player as the contact
  phase left it (the shield \<open>s\<close> of the start of the tick, the health \<open>h\<close> after this
  tick's contact damage). The regeneration phase of the same tick then only lowers the
  lockout from 180 to 179: shield and health at the end of the tick are those after the
  last hit. When exactly one bullet hits, the damage goes to the shield first: with a
  positive shield the damage is subtracted from it, a negative remainder is taken from the
  health and the shield becomes 0; with no shield the whole damage is taken from the
  health; the health is then raised to 0 if it is negative. In particular: shield 10 and
  damage 25 give shield 0 and 15 health lost (health at least 15); shield 30 and damage
  10 give shield 20 and the same health; shield 0 and damage 8 take 8 from the health,
  not below 0. The alien-bullet phase on any frame is this application of the hits, and
  every single hit follows the same rule and sets the lockout to 180.
\<close>

theorem alienBullet_shield_first:
  "\<not> gameOver (gameState m) \<Longrightarrow> \<not> paused (gameState m) \<Longrightarrow>
   (let st = gameState m; anim = animationRef m + 1;
        p0 = updatePlayer inp anim (player st);
        h = Player.health (player st) -
            (\<Sum>e\<leftarrow>filter (contacts p0) (map (moveEnemy anim) (enemies st @ spawned inp st)).
               contactDamage (type e));
        s = shield (player st);
        bs = map moveAlienBullet (alienBullets st);
        hits = filter (\<lambda>b. \<not> y b > CANVAS_HEIGHT \<and> checkCollision b p0) bs;
        q = applyHits (now inp) 1 hits (p0\<lparr> Player.health := h \<rparr>);
        st' = gameState (updateGame inp m);
        p' = player st'
    in p' = shieldRegen q \<and>
       (\<exists>shots. alienBullets st' =
          filter (\<lambda>b. \<not> y b > CANVAS_HEIGHT \<and> \<not> checkCollision b p0) bs @ shots) \<and>
       (hits \<noteq> [] \<longrightarrow>
          shield p' = shield q \<and> Player.health p' = Player.health q \<and> shieldRegenCooldown p' = 179) \<and>
       (\<forall>b. hits = [b] \<longrightarrow>
          (0 < s \<and> damage b \<le> s \<longrightarrow> shield p' = s - damage b \<and> Player.health p' = max 0 h) \<and>
          (0 < s \<and> s < damage b \<longrightarrow>
             shield p' = 0 \<and> Player.health p' = max 0 (h - (damage b - s))) \<and>
          (s \<le> 0 \<longrightarrow> shield p' = s \<and> Player.health p' = max 0 (h - damage b)) \<and>
          (s = 10 \<and> damage b = 25 \<and> 15 \<le> h \<longrightarrow> shield p' = 0 \<and> Player.health p' = h - 15) \<and>
          (s = 30 \<and> damage b = 10 \<and> 15 \<le> h \<longrightarrow> shield p' = 20 \<and> Player.health p' = h) \<and>
          (s = 0 \<and> damage b = 8 \<longrightarrow> shield p' = 0 \<and> Player.health p' = max 0 (h - 8)))) \<and>
   (let p = player (newState f); bs = map moveAlienBullet (alienBullets (newState f))
    in player (newState (updateAlienBullets inp f)) =
         applyHits (now inp) (nowCalls f)
           (filter (\<lambda>b. \<not> y b > CANVAS_HEIGHT \<and> checkCollision b p) bs) p \<and>
       alienBullets (newState (updateAlienBullets inp f)) =
         filter (\<lambda>b. \<not> y b > CANVAS_HEIGHT \<and> \<not> checkCollision b p) bs) \<and>
   (let r' = alienBulletHit t b r
    in shieldRegenCooldown r' = 180 \<and>
       (0 < shield r \<and> damage b \<le> shield r \<longrightarrow>
          shield r' = shield r - damage b \<and> Player.health r' = max 0 (Player.health r)) \<and>
       (0 < shield r \<and> shield r < damage b \<longrightarrow>
          shield r' = 0 \<and> Player.health r' = max 0 (Player.health r - (damage b - shield r))) \<and>
       (shield r \<le> 0 \<longrightarrow>
          shield r' = shield r \<and> Player.health r' = max 0 (Player.health r - damage b)))"
proof -
  assume run: "\<not> gameOver (gameState m)" "\<not> paused (gameState m)"
  define p0 where "p0 = updatePlayer inp (animationRef m + 1) (player (gameState m))"
  define h where "h = Player.health (player (gameState m)) -
      (\<Sum>e\<leftarrow>filter (contacts p0) (map (moveEnemy (animationRef m + 1))
          (enemies (gameState m) @ spawned inp (gameState m))). contactDamage (type e))"
  define hits where "hits = filter (\<lambda>b. \<not> y b > CANVAS_HEIGHT \<and> checkCollision b p0)
      (map moveAlienBullet (alienBullets (gameState m)))"
  define q where "q = applyHits (now inp) 1 hits (p0\<lparr> Player.health := h \<rparr>)"
  define p' where "p' = player (gameState (updateGame inp m))"
  have A: "p' = shieldRegen q"
    unfolding p'_def q_def hits_def h_def p0_def by (rule tick_player [OF run])
  have B: "\<exists>shots. alienBullets (gameState (updateGame inp m)) =
      filter (\<lambda>b. \<not> y b > CANVAS_HEIGHT \<and> \<not> checkCollision b p0)
        (map moveAlienBullet (alienBullets (gameState m))) @ shots"
    unfolding p0_def by (rule tick_alienBullets [OF run])
  have C: "shield p' = shield q \<and> Player.health p' = Player.health q \<and> shieldRegenCooldown p' = 179"
    if "hits \<noteq> []"
    using applyHits_lockout [OF that, of "now inp" 1 "p0\<lparr> Player.health := h \<rparr>"]
    by (simp add: A shieldRegen_fields q_def)
  have s0: "shield (p0\<lparr> Player.health := h \<rparr>) = shield (player (gameState m))"
    "Player.health (p0\<lparr> Player.health := h \<rparr>) = h"
    by (simp_all add: p0_def)
  have D: "(0 < shield (player (gameState m)) \<and> damage b \<le> shield (player (gameState m)) \<longrightarrow>
        shield p' = shield (player (gameState m)) - damage b \<and> Player.health p' = max 0 h) \<and>
      (0 < shield (player (gameState m)) \<and> shield (player (gameState m)) < damage b \<longrightarrow>
        shield p' = 0 \<and> Player.health p' = max 0 (h - (damage b - shield (player (gameState m))))) \<and>
      (shield (player (gameState m)) \<le> 0 \<longrightarrow>
        shield p' = shield (player (gameState m)) \<and> Player.health p' = max 0 (h - damage b))"
    if "hits = [b]" for b
  proof -
    from that have "q = alienBulletHit (now inp 1) b (p0\<lparr> Player.health := h \<rparr>)"
      by (simp add: q_def)
    with C that have "shield p' = shield (alienBulletHit (now inp 1) b (p0\<lparr> Player.health := h \<rparr>))"
      "Player.health p' = Player.health (alienBulletHit (now inp 1) b (p0\<lparr> Player.health := h \<rparr>))"
      by simp_all
    then show ?thesis
      using alienBulletHit_rule [of "p0\<lparr> Player.health := h \<rparr>" b "now inp 1"]
      by (simp only: s0)
  qed
  have E: "\<forall>b. hits = [b] \<longrightarrow>
      (0 < shield (player (gameState m)) \<and> damage b \<le> shield (player (gameState m)) \<longrightarrow>
        shield p' = shield (player (gameState m)) - damage b \<and> Player.health p' = max 0 h) \<and>
      (0 < shield (player (gameState m)) \<and> shield (player (gameState m)) < damage b \<longrightarrow>
        shield p' = 0 \<and> Player.health p' = max 0 (h - (damage b - shield (player (gameState m))))) \<and>
      (shield (player (gameState m)) \<le> 0 \<longrightarrow>
        shield p' = shield (player (gameState m)) \<and> Player.health p' = max 0 (h - damage b)) \<and>
      (shield (player (gameState m)) = 10 \<and> damage b = 25 \<and> 15 \<le> h \<longrightarrow>
        shield p' = 0 \<and> Player.health p' = h - 15) \<and>
      (shield (player (gameState m)) = 30 \<and> damage b = 10 \<and> 15 \<le> h \<longrightarrow>
        shield p' = 20 \<and> Player.health p' = h) \<and>
      (shield (player (gameState m)) = 0 \<and> damage b = 8 \<longrightarrow>
        shield p' = 0 \<and> Player.health p' = max 0 (h - 8))"
  proof (intro allI impI)
    fix b assume "hits = [b]"
    from D [OF this] show "(0 < shield (player (gameState m)) \<and> damage b \<le> shield (player (gameState m)) \<longrightarrow>
        shield p' = shield (player (gameState m)) - damage b \<and> Player.health p' = max 0 h) \<and>
      (0 < shield (player (gameState m)) \<and> shield (player (gameState m)) < damage b \<longrightarrow>
        shield p' = 0 \<and> Player.health p' = max 0 (h - (damage b - shield (player (gameState m))))) \<and>
      (shield (player (gameState m)) \<le> 0 \<longrightarrow>
        shield p' = shield (player (gameState m)) \<and> Player.health p' = max 0 (h - damage b)) \<and>
      (shield (player (gameState m)) = 10 \<and> damage b = 25 \<and> 15 \<le> h \<longrightarrow>
        shield p' = 0 \<and> Player.health p' = h - 15) \<and>
      (shield (player (gameState m)) = 30 \<and> damage b = 10 \<and> 15 \<le> h \<longrightarrow>
        shield p' = 20 \<and> Player.health p' = h) \<and>
      (shield (player (gameState m)) = 0 \<and> damage b = 8 \<longrightarrow>
        shield p' = 0 \<and> Player.health p' = max 0 (h - 8))"
      by auto
  qed
  have F: "shieldRegenCooldown (alienBulletHit t b r) = 180"
    by simp
  show ?thesis
    unfolding Let_def
    using A B C E F alienBulletHit_rule [of r b t]
      updateAlienBullets_player [of inp f] updateAlienBullets_kept [of inp f]
    unfolding p'_def q_def hits_def h_def p0_def
    by blast
qed

theorem alienBullet_shield_first_witness:
  "shield (player (gameState (shieldMachine 40 10 25))) = 10 \<and>
   shield (player (gameState (updateGame quietInput (shieldMachine 40 10 25)))) = 0 \<and>
   Player.health (player (gameState (updateGame quietInput (shieldMachine 40 10 25)))) = 25 \<and>
   shieldRegenCooldown (player (gameState (updateGame quietInput (shieldMachine 40 10 25)))) = 179 \<and>
   shield (player (gameState (updateGame quietInput (shieldMachine 40 30 10)))) = 20 \<and>
   Player.health (player (gameState (updateGame quietInput (shieldMachine 40 30 10)))) = 40 \<and>
   shield (player (gameState (updateGame quietInput (shieldMachine 5 0 8)))) = 0 \<and>
   Player.health (player (gameState (updateGame quietInput (shieldMachine 5 0 8)))) = 0 \<and>
   Player.health (player (gameState (updateGame quietInput (shieldMachine 40 0 8)))) = 32"
proof -
  have run: "\<not> gameOver (gameState (shieldMachine h s d))" "\<not> paused (gameState (shieldMachine h s d))"
    for h s d
    by (simp_all add: shieldMachine_def initialMachine_def initialState_def)
  have hits: "filter (\<lambda>b. \<not> y b > CANVAS_HEIGHT \<and> checkCollision b
        (updatePlayer quietInput (animationRef (shieldMachine h s d) + 1)
           (player (gameState (shieldMachine h s d)))))
      (map moveAlienBullet (alienBullets (gameState (shieldMachine h s d)))) =
      [moveAlienBullet (exampleAlienBullet d)]" for h s d
    by (simp add: shieldMachine_def initialMachine_def initialState_def examplePlayer_def
        moveAlienBullet_def exampleAlienBullet_def checkCollision_def updatePlayer_def
        quietInput_def Let_def
        CANVAS_WIDTH_def CANVAS_HEIGHT_def PLAYER_SPEED_def ALIEN_BULLET_SPEED_def)
  have none: "enemies (gameState (shieldMachine h s d)) @ spawned quietInput (gameState (shieldMachine h s d)) = []"
    for h s d
    by (simp add: shieldMachine_def initialMachine_def initialState_def spawned_def
        quietInput_def constDraw_def)
  have sel: "shield (player (gameState (shieldMachine h s d))) = s"
    "Player.health (player (gameState (shieldMachine h s d))) = h"
    "damage (moveAlienBullet (exampleAlienBullet d)) = d" for h s d
    by (simp_all add: shieldMachine_def examplePlayer_def moveAlienBullet_def exampleAlienBullet_def)
  note t = alienBullet_shield_first [unfolded Let_def, THEN conjunct1, THEN conjunct2, THEN conjunct2]
  note a = t [OF run [of 40 10 25], of quietInput, unfolded hits none sel]
  note b = t [OF run [of 40 30 10], of quietInput, unfolded hits none sel]
  note c = t [OF run [of 5 0 8], of quietInput, unfolded hits none sel]
  note d = t [OF run [of 40 0 8], of quietInput, unfolded hits none sel]
  have lock: "shieldRegenCooldown (player (gameState (updateGame quietInput (shieldMachine 40 10 25)))) = 179"
    using a [THEN conjunct1] by simp
  show ?thesis
    using a [THEN conjunct2] b [THEN conjunct2] c [THEN conjunct2] d [THEN conjunct2] lock
    by (simp add: sel)
qed

subsection \<open>Enemy health from phase to phase\<close>

lemma spawnEnemy_health_by_type:
  "Enemy.health (spawnEnemy wv rnd k) =
     (case type (spawnEnemy wv rnd k) of scout \<Rightarrow> 1 | heavy \<Rightarrow> 3 | boss \<Rightarrow> 5)"
  by (simp add: spawnEnemy_def split: option.split EnemyType.split)

lemma moveEnemy_health [simp]: "Enemy.health (moveEnemy anim e) = Enemy.health e"
  by (simp add: moveEnemy_def)

lemma updateEnemies_enemies:
  "enemies (newState (updateEnemies inp anim f)) =
     map bounce (filter (\<lambda>e. \<not> y e > CANVAS_HEIGHT \<and> \<not> checkCollision e (player (newState f)))
       (map (moveEnemy anim) (enemies (newState f))))"
  by (simp add: updateEnemies_def case_prod_beta filterEnemies_kept)

lemma updateEnemies_health:
  "map Enemy.health (enemies (newState (updateEnemies inp anim f))) =
     map Enemy.health (filter (\<lambda>e. \<not> y (moveEnemy anim e) > CANVAS_HEIGHT \<and>
                                  \<not> checkCollision (moveEnemy anim e) (player (newState f)))
       (enemies (newState f)))"
  by (simp add: updateEnemies_enemies filter_map comp_def)

lemma scanEnemies_enemies:
  "n \<le> length (enemies (newState f)) \<Longrightarrow>
   (if fst (scanEnemies inp b n f)
    then enemies (newState (snd (scanEnemies inp b n f))) = enemies (newState f)
    else \<exists>i<n. enemies (newState (snd (scanEnemies inp b n f))) =
           (if Enemy.health (enemies (newState f) ! i) - 1 \<le> 0
            then take i (enemies (newState f)) @ drop (Suc i) (enemies (newState f))
            else (enemies (newState f))[i := (enemies (newState f) ! i)\<lparr> Enemy.health :=
                   Enemy.health (enemies (newState f) ! i) - 1 \<rparr>]))"
proof (induction n)
  case 0
  show ?case by simp
next
  case (Suc n)
  let ?es = "enemies (newState f)"
  show ?case
  proof (cases "checkCollision b (?es ! n)")
    case True
    from Suc.prems have n: "n < length ?es" by simp
    have "\<not> fst (scanEnemies inp b (Suc n) f)"
      by (rule scanEnemies_hit(1) [OF True n])
    moreover have "enemies (newState (snd (scanEnemies inp b (Suc n) f))) =
           (if Enemy.health (?es ! n) - 1 \<le> 0
            then take n ?es @ drop (Suc n) ?es
            else ?es[n := (?es ! n)\<lparr> Enemy.health := Enemy.health (?es ! n) - 1 \<rparr>])"
      using scanEnemies_hit(2,3) [OF True n, of inp] by (cases "Enemy.health (?es ! n) - 1 \<le> 0") simp_all
    ultimately show ?thesis
      by (simp only: if_False) blast
  next
    case False
    then have same: "scanEnemies inp b (Suc n) f = scanEnemies inp b n f"
      by (simp add: Let_def)
    from Suc.prems have "n \<le> length ?es" by simp
    from Suc.IH [OF this] show ?thesis
      unfolding same by (auto simp add: less_Suc_eq split: if_splits)
  qed
qed

lemma sum_list_remove_nth:
  "i < length xs \<Longrightarrow> sum_list (map f (take i xs @ drop (Suc i) xs)) = sum_list (map f xs) - f (xs ! i)"
  for f :: "'a \<Rightarrow> int"
proof -
  assume "i < length xs"
  then have "xs = take i xs @ xs ! i # drop (Suc i) xs"
    by (rule id_take_nth_drop)
  then have "sum_list (map f xs) = sum_list (map f (take i xs @ xs ! i # drop (Suc i) xs))"
    by simp
  then show ?thesis
    by simp
qed

lemma sum_list_replace_nth:
  "i < length xs \<Longrightarrow> sum_list (map f (xs[i := a])) = sum_list (map f xs) - f (xs ! i) + f a"
  for f :: "'a \<Rightarrow> int"
proof -
  assume i: "i < length xs"
  then have "xs = take i xs @ xs ! i # drop (Suc i) xs"
    by (rule id_take_nth_drop)
  then have "sum_list (map f xs) = sum_list (map f (take i xs @ xs ! i # drop (Suc i) xs))"
    by simp
  moreover have "xs[i := a] = take i xs @ a # drop (Suc i) xs"
    using i by (rule upd_conv_take_nth_drop)
  ultimately show ?thesis
    by simp
qed

lemma bulletFilter_sum:
  assumes "\<forall>e \<in> set (enemies (newState f)). 1 \<le> Enemy.health e"
  shows "(\<Sum>e\<leftarrow>enemies (newState (snd (bulletFilter inp b f))). Enemy.health e) =
     (\<Sum>e\<leftarrow>enemies (newState f). Enemy.health e) - (if fst (bulletFilter inp b f) then 0 else 1)"
proof (cases "fst (bulletFilter inp b f)")
  case True
  then show ?thesis
    using scanEnemies_enemies [of "length (enemies (newState f))" f inp b]
    by (simp add: bulletFilter_def)
next
  case False
  let ?es = "enemies (newState f)"
  from False obtain i where i: "i < length ?es"
    and r: "enemies (newState (snd (bulletFilter inp b f))) =
           (if Enemy.health (?es ! i) - 1 \<le> 0 then take i ?es @ drop (Suc i) ?es
            else ?es[i := (?es ! i)\<lparr> Enemy.health := Enemy.health (?es ! i) - 1 \<rparr>])"
    using scanEnemies_enemies [of "length ?es" f inp b]
    by (auto simp add: bulletFilter_def)
  from assms i have alive: "1 \<le> Enemy.health (?es ! i)"
    by simp
  show ?thesis
  proof (cases "Enemy.health (?es ! i) - 1 \<le> 0")
    case True
    with alive have "Enemy.health (?es ! i) = 1" by simp
    with True False sum_list_remove_nth [OF i, of Enemy.health] show ?thesis
      by (simp add: r)
  next
    case dec: False
    with False sum_list_replace_nth [OF i, of Enemy.health] show ?thesis
      by (simp add: r)
  qed
qed

lemma filterBullets_sum:
  "\<forall>e \<in> set (enemies (newState f)). 1 \<le> Enemy.health e \<Longrightarrow>
   (\<Sum>e\<leftarrow>enemies (newState (snd (filterBullets inp bs f))). Enemy.health e) =
     (\<Sum>e\<leftarrow>enemies (newState f). Enemy.health e) -
     (int (length bs) - int (length (fst (filterBullets inp bs f))))"
proof (induction bs arbitrary: f)
  case Nil
  show ?case by simp
next
  case (Cons b bs)
  have "\<forall>e \<in> set (enemies (newState (snd (bulletFilter inp b f)))). 1 \<le> Enemy.health e"
    unfolding bulletFilter_def using Cons.prems by (intro scanEnemies_alive) simp_all
  from Cons.IH [OF this] bulletFilter_sum [OF Cons.prems, of inp b] show ?case
    by (simp add: case_prod_beta)
qed

lemma bulletEnemyCollisions_sum:
  "\<forall>e \<in> set (enemies (newState f)). 1 \<le> Enemy.health e \<Longrightarrow>
   (\<Sum>e\<leftarrow>enemies (newState (bulletEnemyCollisions inp f)). Enemy.health e) =
     (\<Sum>e\<leftarrow>enemies (newState f). Enemy.health e) -
     (int (length (bullets (newState f))) - int (length (bullets (newState (bulletEnemyCollisions inp f)))))"
  using filterBullets_sum [of f inp "bullets (newState f)"]
  by (simp add: bulletEnemyCollisions_def case_prod_beta)

lemma enemyShooting_health:
  "map Enemy.health (enemies (newState (enemyShooting inp f))) = map Enemy.health (enemies (newState f))"
  by (simp add: enemyShooting_def case_prod_beta enemiesShoot_health)

lemma tick_enemies:
  assumes "\<not> gameOver (gameState m)" "\<not> paused (gameState m)"
  shows "\<exists>f. enemies (newState f) = enemies (gameState m) @ spawned inp (gameState m) \<and>
     enemies (gameState (updateGame inp m)) =
       enemies (newState (enemyShooting inp (updateAlienBullets inp (bulletEnemyCollisions inp
          (updateEnemies inp (animationRef m + 1) f)))))"
proof -
  define f4 where "f4 = spawnEnemies inp
      (bulletStep (snd (shooting inp (lastShotRef m) (playerStep inp (animationRef m + 1)
         \<lparr> newState = gameState m, randomCalls = 0, nowCalls = 0 \<rparr>))))"
  have "enemies (newState f4) = enemies (gameState m) @ spawned inp (gameState m)"
    by (simp add: f4_def spawnEnemies_enemies spawned_def)
  moreover have "enemies (gameState (updateGame inp m)) =
       enemies (newState (enemyShooting inp (updateAlienBullets inp (bulletEnemyCollisions inp
          (updateEnemies inp (animationRef m + 1) f4)))))"
    by (simp add: updateGame_running [OF assms] updater_unfold f4_def)
  ultimately show ?thesis
    by blast
qed

lemma wound_step:
  "map Enemy.health (enemies (gameState woundMachine)) = [1, 3] \<and>
   map Enemy.health (enemies (gameState (updateGame quietInput woundMachine))) = [2] \<and>
   map type (enemies (gameState (updateGame quietInput woundMachine))) = [heavy]"
  by (simp add: updateGame_def updater_def woundMachine_def initialMachine_def initialState_def
      quietInput_def constDraw_def constClock_def Let_def
      playerStep_def bulletStep_def shieldStep_def particleStep_def updatePlayer_def shooting_def updateBullets_def spawnEnemies_def updateEnemies_def
      moveEnemy_def enemyFilter_def bounce_def bulletEnemyCollisions_def bulletFilter_def
      updateAlienBullets_def enemyShooting_def enemyShoot_def
      checkCollision_def exampleEnemy_def exampleBullet_def pushParticles_eval
      CANVAS_WIDTH_def CANVAS_HEIGHT_def PLAYER_SPEED_def BULLET_SPEED_def ENEMY_SPEED_def
      del: upt_Suc)

text \<open>
  Claim C10. A tick keeps the property that every enemy of the collection has health at
  least 1, and the property holds in every state of every session (ticks, pause toggles
  and resets, from the initial state). An enemy is created with health 1 as a scout, 3 as
  a heavy, 5 as a boss. The enemies at the end of a running tick are those of the start
  and the enemy spawned, taken through the move and contact phase, the bullet phase, the
  alien-bullet phase and the enemy shooting, in this order. The move and contact phase
  removes enemies and keeps the health of those that stay; a player bullet either is kept
  and changes no enemy, or lowers the health of one enemy by 1 and removes it when the
  health reaches 0; so, when every enemy has health at least 1, the bullet phase lowers
  the sum of the healths by exactly the number of bullets it removes. The alien-bullet
  phase changes no enemy and the enemy shooting changes no health.
\<close>

theorem enemies_alive:
  "((\<forall>e \<in> set (enemies (gameState m)). 1 \<le> Enemy.health e) \<longrightarrow>
    (\<forall>e \<in> set (enemies (gameState (updateGame inp m))). 1 \<le> Enemy.health e)) \<and>
   (\<forall>e \<in> set (enemies (gameState (run evs initialMachine))). 1 \<le> Enemy.health e) \<and>
   Enemy.health (spawnEnemy wv rnd k) =
     (case type (spawnEnemy wv rnd k) of scout \<Rightarrow> 1 | heavy \<Rightarrow> 3 | boss \<Rightarrow> 5) \<and>
   (\<not> gameOver (gameState m) \<and> \<not> paused (gameState m) \<longrightarrow>
      (\<exists>f4. enemies (newState f4) = enemies (gameState m) @ spawned inp (gameState m) \<and>
         enemies (gameState (updateGame inp m)) =
           enemies (newState (enemyShooting inp (updateAlienBullets inp (bulletEnemyCollisions inp
              (updateEnemies inp (animationRef m + 1) f4))))))) \<and>
   map Enemy.health (enemies (newState (updateEnemies inp anim f))) =
     map Enemy.health (filter (\<lambda>e. \<not> y (moveEnemy anim e) > CANVAS_HEIGHT \<and>
                                  \<not> checkCollision (moveEnemy anim e) (player (newState f)))
       (enemies (newState f))) \<and>
   (let es = enemies (newState f); es' = enemies (newState (snd (bulletFilter inp b f)))
    in if fst (bulletFilter inp b f) then es' = es
       else \<exists>i < length es.
              es' = (if Enemy.health (es ! i) - 1 \<le> 0 then take i es @ drop (Suc i) es
                     else es[i := (es ! i)\<lparr> Enemy.health := Enemy.health (es ! i) - 1 \<rparr>])) \<and>
   ((\<forall>e \<in> set (enemies (newState f)). 1 \<le> Enemy.health e) \<longrightarrow>
      (\<Sum>e\<leftarrow>enemies (newState (bulletEnemyCollisions inp f)). Enemy.health e) =
        (\<Sum>e\<leftarrow>enemies (newState f). Enemy.health e) -
        (int (length (bullets (newState f))) -
         int (length (bullets (newState (bulletEnemyCollisions inp f)))))) \<and>
   enemies (newState (updateAlienBullets inp f)) = enemies (newState f) \<and>
   map Enemy.health (enemies (newState (enemyShooting inp f))) =
     map Enemy.health (enemies (newState f))"
proof -
  have A: "(\<forall>e \<in> set (enemies (gameState m)). 1 \<le> Enemy.health e) \<longrightarrow>
      (\<forall>e \<in> set (enemies (gameState (updateGame inp m))). 1 \<le> Enemy.health e)"
    using updateGame_alive [of m inp] by blast
  have B: "\<forall>e \<in> set (enemies (gameState (run evs initialMachine))). 1 \<le> Enemy.health e"
    using run_alive [of initialMachine evs] by (simp add: initialMachine_def initialState_def)
  have D: "\<not> gameOver (gameState m) \<and> \<not> paused (gameState m) \<longrightarrow>
      (\<exists>f4. enemies (newState f4) = enemies (gameState m) @ spawned inp (gameState m) \<and>
         enemies (gameState (updateGame inp m)) =
           enemies (newState (enemyShooting inp (updateAlienBullets inp (bulletEnemyCollisions inp
              (updateEnemies inp (animationRef m + 1) f4))))))"
    using tick_enemies [of m inp] by blast
  have F: "(let es = enemies (newState f); es' = enemies (newState (snd (bulletFilter inp b f)))
    in if fst (bulletFilter inp b f) then es' = es
       else \<exists>i < length es.
              es' = (if Enemy.health (es ! i) - 1 \<le> 0 then take i es @ drop (Suc i) es
                     else es[i := (es ! i)\<lparr> Enemy.health := Enemy.health (es ! i) - 1 \<rparr>]))"
    unfolding Let_def bulletFilter_def
    by (rule scanEnemies_enemies) simp
  have G: "(\<forall>e \<in> set (enemies (newState f)). 1 \<le> Enemy.health e) \<longrightarrow>
      (\<Sum>e\<leftarrow>enemies (newState (bulletEnemyCollisions inp f)). Enemy.health e) =
        (\<Sum>e\<leftarrow>enemies (newState f). Enemy.health e) -
        (int (length (bullets (newState f))) -
         int (length (bullets (newState (bulletEnemyCollisions inp f)))))"
    using bulletEnemyCollisions_sum [of f inp] by blast
  have H: "enemies (newState (updateAlienBullets inp f)) = enemies (newState f)"
    by simp
  show ?thesis
    using A B spawnEnemy_health_by_type [of wv rnd k] D updateEnemies_health [of inp anim f] F G H
      enemyShooting_health [of inp f]
    by (intro conjI)
qed

theorem enemies_alive_witness:
  "map Enemy.health (enemies (gameState woundMachine)) = [1, 3] \<and>
   list_all (\<lambda>e. 1 \<le> Enemy.health e) (enemies (gameState woundMachine)) \<and>
   map Enemy.health (enemies (gameState (updateGame quietInput woundMachine))) = [2] \<and>
   map type (enemies (gameState (updateGame quietInput woundMachine))) = [heavy] \<and>
   list_all (\<lambda>e. 1 \<le> Enemy.health e) (enemies (gameState (updateGame quietInput woundMachine))) \<and>
   map type (enemies (gameState (run [Tick spawnInput] initialMachine))) = [scout] \<and>
   list_all (\<lambda>e. 1 \<le> Enemy.health e) (enemies (gameState (run [Tick spawnInput] initialMachine))) \<and>
   map Enemy.health (enemies (newState killFrame)) = [1, 3, 5] \<and>
   length (bullets (newState killFrame)) = 9 \<and>
   bullets (newState (bulletEnemyCollisions quietInput killFrame)) = [] \<and>
   (\<Sum>e\<leftarrow>enemies (newState (bulletEnemyCollisions quietInput killFrame)). Enemy.health e) = 0"
proof -
  have alive: "\<forall>e \<in> set (enemies (gameState woundMachine)). 1 \<le> Enemy.health e"
    by (simp add: woundMachine_def exampleEnemy_def)
  have k: "map Enemy.health (enemies (newState killFrame)) = [1, 3, 5]"
    "length (bullets (newState killFrame)) = 9"
    "\<forall>e \<in> set (enemies (newState killFrame)). 1 \<le> Enemy.health e"
    "(\<Sum>e\<leftarrow>enemies (newState killFrame). Enemy.health e) = 9"
    by (simp_all add: killFrame_def exampleFrame_def exampleEnemy_def)
  have b: "bullets (newState (bulletEnemyCollisions quietInput killFrame)) = []"
    using kill_three [of quietInput] by blast
  note t = enemies_alive [of woundMachine quietInput "[Tick spawnInput]" _ _ _ _ killFrame]
  note s = t [THEN conjunct2, THEN conjunct2, THEN conjunct2, THEN conjunct2, THEN conjunct2,
      THEN conjunct2, THEN conjunct1]
  have "(\<Sum>e\<leftarrow>enemies (newState (bulletEnemyCollisions quietInput killFrame)). Enemy.health e) = 0"
    using s k(3) by (simp only: k(2,4) b) simp
  then show ?thesis
    using t [THEN conjunct1] t [THEN conjunct2, THEN conjunct1] alive wound_step spawn_step k(1,2) b
    by (simp add: list_all_iff)
qed

end
